theory Spec2Isabelle
  imports Main "HOL-Library.Multiset"
begin

section \<open>JavaScript string primitives used by the server\<close>

text \<open>
  A JavaScript string is modelled as a \<^typ>\<open>string\<close>, one \<^typ>\<open>char\<close> per code unit
  (code units below 256). \<open>undefined\<close> is \<^term>\<open>None\<close> wherever a value may be absent.
\<close>

definition startsWith :: "string \<Rightarrow> string \<Rightarrow> bool" where
  "startsWith s p = (take (length p) s = p)"

text \<open>\<open>s.includes(p)\<close>: \<open>p\<close> occurs somewhere in \<open>s\<close>.\<close>

fun includes_str :: "string \<Rightarrow> string \<Rightarrow> bool" where
  "includes_str [] p = (p = [])"
| "includes_str (c # cs) p = (startsWith (c # cs) p \<or> includes_str cs p)"

text \<open>\<open>s.replace(p, r)\<close> with a string pattern: only the first occurrence is replaced.\<close>

fun replace_first :: "string \<Rightarrow> string \<Rightarrow> string \<Rightarrow> string" where
  "replace_first p r [] = (if p = [] then r else [])"
| "replace_first p r (c # cs) =
     (if startsWith (c # cs) p then r @ drop (length p) (c # cs)
      else c # replace_first p r cs)"

text \<open>\<open>s.split(c)\<close> for a one-character separator: never the empty array.\<close>

fun split_chr :: "char \<Rightarrow> string \<Rightarrow> string list" where
  "split_chr c [] = [[]]"
| "split_chr c (x # xs) =
     (if x = c then [] # split_chr c xs
      else (case split_chr c xs of
              [] \<Rightarrow> [[x]]
            | y # ys \<Rightarrow> (x # y) # ys))"

text \<open>\<open>parts.join(c)\<close>.\<close>

fun join_chr :: "char \<Rightarrow> string list \<Rightarrow> string" where
  "join_chr c [] = []"
| "join_chr c [x] = x"
| "join_chr c (x # y # ys) = x @ c # join_chr c (y # ys)"

text \<open>\<open>s.substring(a, b)\<close> for \<open>a \<le> b\<close>; both ends are clamped to the length.\<close>

definition substring :: "nat \<Rightarrow> nat \<Rightarrow> string \<Rightarrow> string" where
  "substring a b s = take (b - a) (drop a s)"

text \<open>
  \<open>s.trim()\<close> strips white space and line terminators at both ends: tab, line feed,
  vertical tab, form feed, carriage return, space and no-break space.
\<close>

definition isWhiteSpace :: "char \<Rightarrow> bool" where
  "isWhiteSpace c = (c \<in> set [CHR 0x09, CHR 0x0A, CHR 0x0B, CHR 0x0C, CHR 0x0D, CHR 0x20, CHR 0xA0])"

definition trim :: "string \<Rightarrow> string" where
  "trim s = rev (dropWhile isWhiteSpace (rev (dropWhile isWhiteSpace s)))"

text \<open>Truthiness of a possibly absent string, and \<open>a || b\<close> on such values.\<close>

definition truthy :: "string option \<Rightarrow> bool" where
  "truthy v = (case v of None \<Rightarrow> False | Some s \<Rightarrow> s \<noteq> [])"

definition or_else :: "string option \<Rightarrow> string \<Rightarrow> string" where
  "or_else v d = (case v of None \<Rightarrow> d | Some s \<Rightarrow> if s = [] then d else s)"

text \<open>Decimal rendering of an integer, as \<open>Number.prototype.toString\<close> and template
  literals print an integral number.\<close>

definition digit_char :: "nat \<Rightarrow> char" where
  "digit_char d = ''0123456789'' ! (d mod 10)"

fun string_of_nat :: "nat \<Rightarrow> string" where
  "string_of_nat n =
     (if n < 10 then [digit_char n] else string_of_nat (n div 10) @ [digit_char (n mod 10)])"

definition string_of_int :: "int \<Rightarrow> string" where
  "string_of_int i = (if i < 0 then CHR ''-'' # string_of_nat (nat (- i)) else string_of_nat (nat i))"

definition is_digit :: "char \<Rightarrow> bool" where
  "is_digit c = (c \<in> set ''0123456789'')"

section \<open>The date formatter\<close>

text \<open>
  \<open>formatICSDate\<close> (identical in \<open>server.ts\<close> and \<open>server-backup.ts\<close>). The first
  argument is the value of \<open>new Date().toISOString()\<close> at the call.
\<close>

definition ymd :: "string \<Rightarrow> string" where
  "ymd s = substring 0 4 s @ ''-'' @ substring 4 6 s @ ''-'' @ substring 6 8 s"

definition before_first :: "char \<Rightarrow> string \<Rightarrow> string" where
  "before_first c s = (case split_chr c s of [] \<Rightarrow> [] | x # _ \<Rightarrow> x)"

definition formatICSDate :: "string \<Rightarrow> string option \<Rightarrow> string" where
  "formatICSDate isoNow icsDate =
     (if \<not> truthy icsDate then before_first CHR ''T'' isoNow
      else (case icsDate of
              None \<Rightarrow> before_first CHR ''T'' isoNow
            | Some s \<Rightarrow>
                if length s = 8 then ymd s
                else if includes_str s ''T'' then ymd (before_first CHR ''T'' s)
                else before_first CHR ''T'' isoNow))"


text \<open>The spec's two well-formed token shapes: eight digits, and eight digits followed
  by \<open>T\<close> and anything.\<close>

definition date_token :: "string \<Rightarrow> bool" where
  "date_token s = (length s = 8 \<and> list_all is_digit s)"

definition datetime_token :: "string \<Rightarrow> bool" where
  "datetime_token s = (8 < length s \<and> list_all is_digit (take 8 s) \<and> s ! 8 = CHR ''T'')"

section \<open>The platform: clock and \<open>Date\<close>\<close>

text \<open>
  The JavaScript runtime is a parameter of the model. \<open>Date_now k\<close> is the reading of
  \<open>Date.now()\<close> while the \<open>k\<close>-th line of a feed is processed, \<open>toISOString t\<close> is
  \<open>new Date(t).toISOString()\<close>, and \<open>Date_parse s\<close> is \<open>new Date(s).getTime()\<close>, where
  \<^term>\<open>None\<close> stands for \<open>NaN\<close> (an invalid date).
\<close>

record runtime =
  Date_now :: "nat \<Rightarrow> int"
  toISOString :: "int \<Rightarrow> string"
  Date_parse :: "string \<Rightarrow> int option"

text \<open>
  \<open>s.replace(/(\d{4})(\d{2})(\d{2})T(\d{2})(\d{2})(\d{2})/, "$1-$2-$3T$4:$5:$6")\<close>:
  the leftmost match is rewritten, the rest of the string is kept.
\<close>

definition matches_datetime :: "string \<Rightarrow> bool" where
  "matches_datetime s =
     (15 \<le> length s \<and> list_all is_digit (take 8 s) \<and> s ! 8 = CHR ''T''
      \<and> list_all is_digit (take 6 (drop 9 s)))"

fun replace_datetime :: "string \<Rightarrow> string" where
  "replace_datetime [] = []"
| "replace_datetime (c # cs) =
     (if matches_datetime (c # cs)
      then substring 0 4 (c # cs) @ ''-'' @ substring 4 6 (c # cs) @ ''-''
           @ substring 6 8 (c # cs) @ ''T'' @ substring 9 11 (c # cs) @ '':''
           @ substring 11 13 (c # cs) @ '':'' @ substring 13 15 (c # cs) @ drop 15 (c # cs)
      else c # replace_datetime cs)"

text \<open>\<open>s.replace(/(\d{4})(\d{2})(\d{2})/, "$1-$2-$3")\<close>.\<close>

definition matches_date :: "string \<Rightarrow> bool" where
  "matches_date s = (8 \<le> length s \<and> list_all is_digit (take 8 s))"

fun replace_date :: "string \<Rightarrow> string" where
  "replace_date [] = []"
| "replace_date (c # cs) =
     (if matches_date (c # cs)
      then substring 0 4 (c # cs) @ ''-'' @ substring 4 6 (c # cs) @ ''-''
           @ substring 6 8 (c # cs) @ drop 8 (c # cs)
      else c # replace_date cs)"

text \<open>
  \<open>Math.round(x / d)\<close> for an integral \<open>x\<close> and a positive integral \<open>d\<close>: the nearest
  integer, a half rounded up. \<open>Math.floor(x / d)\<close> is \<open>x div d\<close>.
\<close>

definition round_div :: "int \<Rightarrow> int \<Rightarrow> int" where
  "round_div x d = (2 * x + d) div (2 * d)"

definition plural :: "int \<Rightarrow> string" where
  "plural n = (if n \<noteq> 1 then ''s'' else [])"

section \<open>Time and duration formatters\<close>

text \<open>\<open>formatICSTime\<close> of \<open>server.ts\<close>.\<close>

definition second_part :: "char \<Rightarrow> string \<Rightarrow> string option" where
  "second_part c s = (case split_chr c s of _ # y # _ \<Rightarrow> Some y | _ \<Rightarrow> None)"

definition hh_mm :: "string option \<Rightarrow> string" where
  "hh_mm timePart =
     (case timePart of
        None \<Rightarrow> ''00:00''
      | Some t \<Rightarrow> if t \<noteq> [] \<and> 4 \<le> length t
                  then substring 0 2 t @ '':'' @ substring 2 4 t else ''00:00'')"

definition formatICSTime :: "string option \<Rightarrow> string" where
  "formatICSTime icsDate =
     (case icsDate of
        None \<Rightarrow> ''00:00''
      | Some s \<Rightarrow>
          if s = [] \<or> \<not> includes_str s ''T'' then ''00:00''
          else hh_mm (second_part CHR ''T'' s))"

text \<open>\<open>formatICSTime\<close> of \<open>server-backup.ts\<close>: the first \<open>Z\<close> is removed first.\<close>

definition formatICSTime_backup :: "string option \<Rightarrow> string" where
  "formatICSTime_backup icsDate =
     (case icsDate of
        None \<Rightarrow> ''00:00''
      | Some s \<Rightarrow>
          if s = [] then ''00:00''
          else (let cleanDate = replace_first ''Z'' [] s in
                if \<not> includes_str cleanDate ''T'' then ''00:00''
                else hh_mm (second_part CHR ''T'' cleanDate)))"

text \<open>
  \<open>calculateDuration\<close> of \<open>server.ts\<close>: rounded hours only. Nothing inside its \<open>try\<close>
  throws (\<open>replace\<close> is called on a non-empty string and \<open>new Date\<close> yields an invalid
  date instead of throwing), so the \<open>catch\<close> has no case here; \<open>NaN\<close> fails the test
  \<open>diffHours > 0\<close>.
\<close>

definition calculateDuration :: "runtime \<Rightarrow> string option \<Rightarrow> string option \<Rightarrow> string" where
  "calculateDuration rt start end' =
     (case (start, end') of
        (Some s, Some e) \<Rightarrow>
          if s = [] \<or> e = [] then ''1 hour''
          else (case (Date_parse rt (replace_datetime s), Date_parse rt (replace_datetime e)) of
                  (Some startTime, Some endTime) \<Rightarrow>
                    (let diffMs = endTime - startTime;
                         diffHours = round_div diffMs (1000 * 60 * 60)
                     in if 0 < diffHours
                        then string_of_int diffHours @ '' hour'' @ plural diffHours
                        else ''1 hour'')
                | _ \<Rightarrow> ''1 hour'')
      | _ \<Rightarrow> ''1 hour'')"

text \<open>
  \<open>calculateDuration\<close> of \<open>server-backup.ts\<close>: all-day flag, then days, hours, minutes.
  With \<open>NaN\<close> every comparison fails and the last \<open>return "1 hour"\<close> is reached.
\<close>

definition to_instant :: "runtime \<Rightarrow> string \<Rightarrow> int option" where
  "to_instant rt tok =
     (if includes_str tok ''T'' then Date_parse rt (replace_datetime tok)
      else Date_parse rt (replace_date tok))"

definition bucket :: "int \<Rightarrow> string" where
  "bucket diffMs =
     (if diffMs \<le> 0 then ''1 hour''
      else (let diffDays = diffMs div (1000 * 60 * 60 * 24) in
            if 0 < diffDays then string_of_int diffDays @ '' day'' @ plural diffDays
            else (let diffHours = round_div diffMs (1000 * 60 * 60);
                      diffMinutes = round_div diffMs (1000 * 60)
                  in if 0 < diffHours then string_of_int diffHours @ '' hour'' @ plural diffHours
                     else if 0 < diffMinutes
                     then string_of_int diffMinutes @ '' minute'' @ plural diffMinutes
                     else ''1 hour'')))"

definition calculateDuration_backup ::
  "runtime \<Rightarrow> string option \<Rightarrow> string option \<Rightarrow> bool \<Rightarrow> string" where
  "calculateDuration_backup rt start end' isAllDay =
     (case (start, end') of
        (Some s, Some e) \<Rightarrow>
          if s = [] \<or> e = [] then (if isAllDay then ''All day'' else ''1 hour'')
          else if isAllDay then ''All day''
          else (case (to_instant rt s, to_instant rt e) of
                  (Some startTime, Some endTime) \<Rightarrow> bucket (endTime - startTime)
                | _ \<Rightarrow> ''1 hour'')
      | _ \<Rightarrow> (if isAllDay then ''All day'' else ''1 hour''))"

section \<open>The ICS parser\<close>

text \<open>The accumulator \<open>currentEvent\<close>: every property is absent until a line sets it.\<close>

record raw_event =
  summary :: "string option"
  dtstart :: "string option"
  dtend :: "string option"
  raw_description :: "string option"
  raw_location :: "string option"
  uid :: "string option"

record raw_event_backup = raw_event +
  dtstartType :: "string option"
  dtendType :: "string option"

text \<open>The emitted event. \<open>server-backup.ts\<close> adds the field \<open>isAllDay\<close>.\<close>

record calendar_event =
  event_id :: string
  title :: string
  date :: string
  time :: string
  duration :: string
  description :: string
  location :: string
  priority :: string
  source :: string

record calendar_event_backup = calendar_event +
  isAllDay :: bool

definition empty_event :: raw_event where
  "empty_event = \<lparr>summary = None, dtstart = None, dtend = None, raw_description = None,
     raw_location = None, uid = None\<rparr>"

definition empty_event_backup :: raw_event_backup where
  "empty_event_backup = \<lparr>summary = None, dtstart = None, dtend = None, raw_description = None,
     raw_location = None, uid = None, dtstartType = None, dtendType = None\<rparr>"

text \<open>\<open>const [key, ...valueParts] = trimmedLine.split(":"); value = valueParts.join(":")\<close>.\<close>

definition line_key :: "string \<Rightarrow> string" where
  "line_key l = (case split_chr CHR '':'' l of [] \<Rightarrow> [] | k # _ \<Rightarrow> k)"

definition line_value :: "string \<Rightarrow> string" where
  "line_value l = (case split_chr CHR '':'' l of [] \<Rightarrow> [] | _ # valueParts \<Rightarrow> join_chr CHR '':'' valueParts)"

text \<open>The \<open>switch (key)\<close> of \<open>server.ts\<close>.\<close>

definition set_property :: "string \<Rightarrow> string \<Rightarrow> raw_event \<Rightarrow> raw_event" where
  "set_property key val cur =
     (if key = ''SUMMARY'' then cur\<lparr>summary := Some val\<rparr>
      else if key = ''DTSTART'' \<or> key = ''DTSTART;VALUE=DATE'' then cur\<lparr>dtstart := Some val\<rparr>
      else if key = ''DTEND'' \<or> key = ''DTEND;VALUE=DATE'' then cur\<lparr>dtend := Some val\<rparr>
      else if key = ''DESCRIPTION'' then cur\<lparr>raw_description := Some val\<rparr>
      else if key = ''LOCATION'' then cur\<lparr>raw_location := Some val\<rparr>
      else if key = ''UID'' then cur\<lparr>uid := Some val\<rparr>
      else cur)"

text \<open>The \<open>switch (key)\<close> of \<open>server-backup.ts\<close>, which also records the value type.\<close>

definition set_property_backup :: "string \<Rightarrow> string \<Rightarrow> raw_event_backup \<Rightarrow> raw_event_backup" where
  "set_property_backup key val cur =
     (if key = ''SUMMARY'' then cur\<lparr>summary := Some val\<rparr>
      else if key = ''DTSTART'' then cur\<lparr>dtstart := Some val, dtstartType := Some ''DATETIME''\<rparr>
      else if key = ''DTSTART;VALUE=DATE'' then cur\<lparr>dtstart := Some val, dtstartType := Some ''DATE''\<rparr>
      else if key = ''DTEND'' then cur\<lparr>dtend := Some val, dtendType := Some ''DATETIME''\<rparr>
      else if key = ''DTEND;VALUE=DATE'' then cur\<lparr>dtend := Some val, dtendType := Some ''DATE''\<rparr>
      else if key = ''DESCRIPTION'' then cur\<lparr>raw_description := Some val\<rparr>
      else if key = ''LOCATION'' then cur\<lparr>raw_location := Some val\<rparr>
      else if key = ''UID'' then cur\<lparr>uid := Some val\<rparr>
      else cur)"

text \<open>
  The object pushed at \<open>END:VEVENT\<close> in \<open>server.ts\<close>; \<open>k\<close> is the index of the line.
  It is built only under the guard \<open>currentEvent.summary && currentEvent.dtstart\<close>, so
  the title read there is a non-empty string.
\<close>

definition make_event :: "runtime \<Rightarrow> string \<Rightarrow> nat \<Rightarrow> raw_event \<Rightarrow> calendar_event" where
  "make_event rt sourceName k cur =
     \<lparr>event_id = or_else (uid cur) (string_of_int (Date_now rt k)),
      title = or_else (summary cur) [],
      date = formatICSDate (toISOString rt (Date_now rt k)) (dtstart cur),
      time = formatICSTime (dtstart cur),
      duration = calculateDuration rt (dtstart cur) (dtend cur),
      description = or_else (raw_description cur) [],
      location = or_else (raw_location cur) [],
      priority = ''medium'',
      source = sourceName\<rparr>"

definition all_day :: "raw_event_backup \<Rightarrow> bool" where
  "all_day cur =
     (dtstartType cur = Some ''DATE''
      \<or> (case dtstart cur of
            None \<Rightarrow> False
          | Some s \<Rightarrow> \<not> includes_str s ''T'' \<and> length s = 8))"

definition make_event_backup ::
  "runtime \<Rightarrow> string \<Rightarrow> nat \<Rightarrow> raw_event_backup \<Rightarrow> calendar_event_backup" where
  "make_event_backup rt sourceName k cur =
     \<lparr>event_id = or_else (uid cur) (string_of_int (Date_now rt k)),
      title = or_else (summary cur) [],
      date = formatICSDate (toISOString rt (Date_now rt k)) (dtstart cur),
      time = (if all_day cur then ''All day'' else formatICSTime_backup (dtstart cur)),
      duration = calculateDuration_backup rt (dtstart cur) (dtend cur) (all_day cur),
      description = or_else (raw_description cur) [],
      location = or_else (raw_location cur) [],
      priority = ''medium'',
      source = sourceName,
      isAllDay = all_day cur\<rparr>"

text \<open>
  One turn of the \<open>for (const line of lines)\<close> loop. The state is the array \<open>events\<close> and
  \<open>currentEvent\<close> (\<^term>\<open>None\<close> for \<open>null\<close>).
\<close>

definition parse_line ::
  "runtime \<Rightarrow> string \<Rightarrow> nat \<Rightarrow> string \<Rightarrow> calendar_event list \<times> raw_event option
     \<Rightarrow> calendar_event list \<times> raw_event option" where
  "parse_line rt sourceName k line st =
     (let trimmedLine = trim line; events = fst st; currentEvent = snd st in
      if trimmedLine = ''BEGIN:VEVENT'' then (events, Some empty_event)
      else (case currentEvent of
              None \<Rightarrow> (events, None)
            | Some cur \<Rightarrow>
                if trimmedLine = ''END:VEVENT''
                then (if truthy (summary cur) \<and> truthy (dtstart cur)
                      then (events @ [make_event rt sourceName k cur], None)
                      else (events, None))
                else if includes_str trimmedLine '':''
                then (events, Some (set_property (line_key trimmedLine) (line_value trimmedLine) cur))
                else (events, Some cur)))"

definition parse_line_backup ::
  "runtime \<Rightarrow> string \<Rightarrow> nat \<Rightarrow> string
     \<Rightarrow> calendar_event_backup list \<times> raw_event_backup option
     \<Rightarrow> calendar_event_backup list \<times> raw_event_backup option" where
  "parse_line_backup rt sourceName k line st =
     (let trimmedLine = trim line; events = fst st; currentEvent = snd st in
      if trimmedLine = ''BEGIN:VEVENT'' then (events, Some empty_event_backup)
      else (case currentEvent of
              None \<Rightarrow> (events, None)
            | Some cur \<Rightarrow>
                if trimmedLine = ''END:VEVENT''
                then (if truthy (summary cur) \<and> truthy (dtstart cur)
                      then (events @ [make_event_backup rt sourceName k cur], None)
                      else (events, None))
                else if includes_str trimmedLine '':''
                then (events, Some (set_property_backup (line_key trimmedLine)
                                      (line_value trimmedLine) cur))
                else (events, Some cur)))"

text \<open>The loop, from line number \<open>k\<close> on.\<close>

fun parse_lines ::
  "runtime \<Rightarrow> string \<Rightarrow> nat \<Rightarrow> string list \<Rightarrow> calendar_event list \<times> raw_event option
     \<Rightarrow> calendar_event list \<times> raw_event option" where
  "parse_lines rt sourceName k [] st = st"
| "parse_lines rt sourceName k (line # lines) st =
     parse_lines rt sourceName (Suc k) lines (parse_line rt sourceName k line st)"

fun parse_lines_backup ::
  "runtime \<Rightarrow> string \<Rightarrow> nat \<Rightarrow> string list
     \<Rightarrow> calendar_event_backup list \<times> raw_event_backup option
     \<Rightarrow> calendar_event_backup list \<times> raw_event_backup option" where
  "parse_lines_backup rt sourceName k [] st = st"
| "parse_lines_backup rt sourceName k (line # lines) st =
     parse_lines_backup rt sourceName (Suc k) lines (parse_line_backup rt sourceName k line st)"

definition parseICSData :: "runtime \<Rightarrow> string \<Rightarrow> string \<Rightarrow> calendar_event list" where
  "parseICSData rt icsData sourceName =
     fst (parse_lines rt sourceName 0 (split_chr CHR 0x0A icsData) ([], None))"

definition parseICSData_backup :: "runtime \<Rightarrow> string \<Rightarrow> string \<Rightarrow> calendar_event_backup list" where
  "parseICSData_backup rt icsData sourceName =
     fst (parse_lines_backup rt sourceName 0 (split_chr CHR 0x0A icsData) ([], None))"

text \<open>Today's date: \<open>new Date().toISOString().split("T")[0]\<close>.\<close>

definition today :: "string \<Rightarrow> string" where
  "today isoNow = before_first CHR ''T'' isoNow"

section \<open>A reference \<open>Date\<close> for concrete runs\<close>

text \<open>
  A reading of the ECMAScript date-time string format for the two shapes the server hands
  to \<open>new Date\<close>: \<open>YYYY-MM-DD\<close> (midnight UTC) and \<open>YYYY-MM-DDTHH:mm:ss\<close>, local time in
  a zone \<open>tz\<close> milliseconds ahead of UTC, or UTC when \<open>Z\<close> follows. Every other string
  is an invalid date here. It is used to run the formatters on concrete tokens only; the
  general theorems hold for every runtime.
\<close>

definition digits_val :: "string \<Rightarrow> int" where
  "digits_val s = foldl (\<lambda>n c. 10 * n + (int (of_char c) - 48)) 0 s"

definition days_from_civil :: "int \<Rightarrow> int \<Rightarrow> int \<Rightarrow> int" where
  "days_from_civil y m d =
     (let y' = (if m \<le> 2 then y - 1 else y);
          era = y' div 400;
          yoe = y' - era * 400;
          doy = (153 * ((m + 9) mod 12) + 2) div 5 + d - 1;
          doe = yoe * 365 + yoe div 4 - yoe div 100 + doy
      in era * 146097 + doe - 719468)"

definition days_in_month :: "int \<Rightarrow> int \<Rightarrow> int" where
  "days_in_month y m =
     (if m = 2 then (if y mod 4 = 0 \<and> (y mod 100 \<noteq> 0 \<or> y mod 400 = 0) then 29 else 28)
      else if m = 4 \<or> m = 6 \<or> m = 9 \<or> m = 11 then 30 else 31)"

definition shape_date :: "string \<Rightarrow> bool" where
  "shape_date s =
     (length s = 10 \<and> list_all is_digit (take 4 s) \<and> s ! 4 = CHR ''-''
      \<and> list_all is_digit (take 2 (drop 5 s)) \<and> s ! 7 = CHR ''-''
      \<and> list_all is_digit (drop 8 s))"

definition shape_time :: "string \<Rightarrow> bool" where
  "shape_time s =
     (length s = 8 \<and> list_all is_digit (take 2 s) \<and> s ! 2 = CHR '':''
      \<and> list_all is_digit (take 2 (drop 3 s)) \<and> s ! 5 = CHR '':''
      \<and> list_all is_digit (drop 6 s))"

definition date_ms :: "string \<Rightarrow> int option" where
  "date_ms s =
     (let y = digits_val (take 4 s); m = digits_val (take 2 (drop 5 s));
          d = digits_val (take 2 (drop 8 s))
      in if shape_date s \<and> 1 \<le> m \<and> m \<le> 12 \<and> 1 \<le> d \<and> d \<le> days_in_month y m
         then Some (days_from_civil y m d * 86400000) else None)"

definition time_ms :: "string \<Rightarrow> int option" where
  "time_ms s =
     (let h = digits_val (take 2 s); mi = digits_val (take 2 (drop 3 s));
          sec = digits_val (take 2 (drop 6 s))
      in if shape_time s \<and> h \<le> 23 \<and> mi \<le> 59 \<and> sec \<le> 59
         then Some (h * 3600000 + mi * 60000 + sec * 1000) else None)"

definition ecma_parse :: "int \<Rightarrow> string \<Rightarrow> int option" where
  "ecma_parse tz s =
     (if length s = 10 then date_ms s
      else if (length s = 19 \<or> (length s = 20 \<and> s ! 19 = CHR ''Z'')) \<and> s ! 10 = CHR ''T''
      then (case (date_ms (take 10 s), time_ms (take 8 (drop 11 s))) of
              (Some d, Some t) \<Rightarrow> Some (d + t - (if length s = 20 then 0 else tz))
            | _ \<Rightarrow> None)
      else None)"

text \<open>A runtime with a constant clock \<open>t\<close>, a fixed rendering of that instant, and the
  reference \<open>Date\<close> in the zone \<open>tz\<close>.\<close>

definition fixed_runtime :: "int \<Rightarrow> string \<Rightarrow> int \<Rightarrow> runtime" where
  "fixed_runtime t isoNow tz =
     \<lparr>Date_now = (\<lambda>_. t), toISOString = (\<lambda>_. isoNow), Date_parse = ecma_parse tz\<rparr>"

section \<open>Duration buckets, as specified\<close>

text \<open>
  The buckets by their thresholds in milliseconds: a day or more, else half an hour or
  more (rounded hours), else half a minute or more (rounded minutes), else the default.
\<close>

definition bucket_spec :: "int \<Rightarrow> string" where
  "bucket_spec d =
     (if d \<le> 0 then ''1 hour''
      else if 86400000 \<le> d
        then string_of_int (d div 86400000) @ '' day'' @ plural (d div 86400000)
      else if 1800000 \<le> d
        then string_of_int (round_div d 3600000) @ '' hour'' @ plural (round_div d 3600000)
      else if 30000 \<le> d
        then string_of_int (round_div d 60000) @ '' minute'' @ plural (round_div d 60000)
      else ''1 hour'')"

text \<open>The only bucket of \<open>server.ts\<close>: rounded hours from half an hour on.\<close>

definition hours_spec :: "int \<Rightarrow> string" where
  "hours_spec d =
     (if 1800000 \<le> d
      then string_of_int (round_div d 3600000) @ '' hour'' @ plural (round_div d 3600000)
      else ''1 hour'')"

section \<open>A VEVENT block, as specified\<close>

text \<open>
  The lines between \<open>BEGIN:VEVENT\<close> and \<open>END:VEVENT\<close> supply a property through the last
  line, after trimming, that contains a colon and whose name (the text before the first
  colon) is one of the given names; its value is the text after that colon.
\<close>

definition property_lines :: "string list \<Rightarrow> string list \<Rightarrow> string list" where
  "property_lines names body =
     filter (\<lambda>l. includes_str l '':'' \<and> line_key l \<in> set names) (map trim body)"

definition last_value :: "string list \<Rightarrow> string list \<Rightarrow> string option" where
  "last_value names body =
     (case rev (property_lines names body) of [] \<Rightarrow> None | l # _ \<Rightarrow> Some (line_value l))"

definition last_key :: "string list \<Rightarrow> string list \<Rightarrow> string option" where
  "last_key names body =
     (case rev (property_lines names body) of [] \<Rightarrow> None | l # _ \<Rightarrow> Some (line_key l))"

definition block_record :: "string list \<Rightarrow> raw_event" where
  "block_record body =
     \<lparr>summary = last_value [''SUMMARY''] body,
      dtstart = last_value [''DTSTART'', ''DTSTART;VALUE=DATE''] body,
      dtend = last_value [''DTEND'', ''DTEND;VALUE=DATE''] body,
      raw_description = last_value [''DESCRIPTION''] body,
      raw_location = last_value [''LOCATION''] body,
      uid = last_value [''UID''] body\<rparr>"

definition value_type :: "string \<Rightarrow> string" where
  "value_type name = (if includes_str name '';VALUE=DATE'' then ''DATE'' else ''DATETIME'')"

definition block_record_backup :: "string list \<Rightarrow> raw_event_backup" where
  "block_record_backup body =
     \<lparr>summary = last_value [''SUMMARY''] body,
      dtstart = last_value [''DTSTART'', ''DTSTART;VALUE=DATE''] body,
      dtend = last_value [''DTEND'', ''DTEND;VALUE=DATE''] body,
      raw_description = last_value [''DESCRIPTION''] body,
      raw_location = last_value [''LOCATION''] body,
      uid = last_value [''UID''] body,
      dtstartType = map_option value_type (last_key [''DTSTART'', ''DTSTART;VALUE=DATE''] body),
      dtendType = map_option value_type (last_key [''DTEND'', ''DTEND;VALUE=DATE''] body)\<rparr>"

text \<open>A block is emitted when it supplies a non-empty summary and a non-empty start.\<close>

definition emits :: "string list \<Rightarrow> bool" where
  "emits body =
     (truthy (last_value [''SUMMARY''] body)
      \<and> truthy (last_value [''DTSTART'', ''DTSTART;VALUE=DATE''] body))"

definition is_begin :: "string \<Rightarrow> bool" where
  "is_begin l = (trim l = ''BEGIN:VEVENT'')"

definition is_end :: "string \<Rightarrow> bool" where
  "is_end l = (trim l = ''END:VEVENT'')"

text \<open>The events pushed while the lines \<open>ls\<close>, numbered from \<open>k\<close>, are read outside a block.\<close>

definition events_of :: "runtime \<Rightarrow> string \<Rightarrow> nat \<Rightarrow> string list \<Rightarrow> calendar_event list" where
  "events_of rt sourceName k ls = fst (parse_lines rt sourceName k ls ([], None))"

definition events_of_backup ::
  "runtime \<Rightarrow> string \<Rightarrow> nat \<Rightarrow> string list \<Rightarrow> calendar_event_backup list" where
  "events_of_backup rt sourceName k ls = fst (parse_lines_backup rt sourceName k ls ([], None))"

text \<open>What the loop does to \<open>currentEvent\<close> over lines that neither open nor close a block.\<close>

fun fold_props :: "string list \<Rightarrow> raw_event \<Rightarrow> raw_event" where
  "fold_props [] cur = cur"
| "fold_props (l # ls) cur =
     fold_props ls (if includes_str (trim l) '':''
                    then set_property (line_key (trim l)) (line_value (trim l)) cur else cur)"

fun fold_props_backup :: "string list \<Rightarrow> raw_event_backup \<Rightarrow> raw_event_backup" where
  "fold_props_backup [] cur = cur"
| "fold_props_backup (l # ls) cur =
     fold_props_backup ls (if includes_str (trim l) '':''
                    then set_property_backup (line_key (trim l)) (line_value (trim l)) cur else cur)"

section \<open>JSON values and the action store\<close>

text \<open>
  A parsed JSON value. An object lists its members in textual order and a later duplicate
  wins, as \<open>JSON.parse\<close> has it. Numbers are integers here; only being zero or not
  matters to the handlers.
\<close>

datatype json = JNull | JBool bool | JNum int | JStr string | JArr "json list"
  | JObj "(string \<times> json) list"

text \<open>
  \<open>v.name\<close> on a parsed value that is not \<open>null\<close>, for the names the handlers read
  (\<open>eventId\<close>, \<open>action\<close>, \<open>source\<close>, \<open>message\<close>, \<open>current\<close>); none of them is a built-in property
  of a string, a number, a boolean or an array. \<^term>\<open>None\<close> is \<open>undefined\<close>.
\<close>

definition get_prop :: "string \<Rightarrow> json \<Rightarrow> json option" where
  "get_prop name v = (case v of JObj members \<Rightarrow> map_of (rev members) name | _ \<Rightarrow> None)"

definition js_truthy :: "json option \<Rightarrow> bool" where
  "js_truthy v =
     (case v of
        None \<Rightarrow> False
      | Some JNull \<Rightarrow> False
      | Some (JBool b) \<Rightarrow> b
      | Some (JNum n) \<Rightarrow> n \<noteq> 0
      | Some (JStr s) \<Rightarrow> s \<noteq> []
      | Some (JArr _) \<Rightarrow> True
      | Some (JObj _) \<Rightarrow> True)"

text \<open>
  \<open>String(v)\<close>, as a template literal converts a parsed value. The conversion of an
  object calls its \<open>toString\<close>; a parsed object that has a member of that name has
  shadowed the inherited method by a value that cannot be called, \<open>valueOf\<close> gives back
  the object itself, and the conversion raises a \<open>TypeError\<close>. An array joins the
  conversions of its elements, \<open>null\<close> counting as the empty string, and so raises when
  one of them does. \<^term>\<open>convertible v\<close> says that no error is raised, and then
  \<^term>\<open>js_to_string v\<close> is the string.
\<close>

fun convertible :: "json \<Rightarrow> bool" where
  "convertible (JArr xs) = (\<forall>x \<in> set xs. convertible x)"
| "convertible (JObj members) = (''toString'' \<notin> set (map fst members))"
| "convertible v = True"

fun js_to_string :: "json \<Rightarrow> string" where
  "js_to_string JNull = ''null''"
| "js_to_string (JBool b) = (if b then ''true'' else ''false'')"
| "js_to_string (JNum n) = string_of_int n"
| "js_to_string (JStr s) = s"
| "js_to_string (JArr xs) =
     join_chr CHR '','' (map (\<lambda>x. if x = JNull then [] else js_to_string x) xs)"
| "js_to_string (JObj members) = ''[object Object]''"

text \<open>
  The two module-level \<open>Set\<close>s, in insertion order. \<open>Set.add\<close> keeps one copy of a
  primitive value; an array or an object from a request body is a fresh reference, never
  equal to an earlier member. \<open>Set.has\<close> is only ever asked about an event id, a string.
\<close>

record action_store =
  completedEvents :: "json list"
  dismissedEvents :: "json list"

definition is_reference :: "json \<Rightarrow> bool" where
  "is_reference v = (case v of JArr _ \<Rightarrow> True | JObj _ \<Rightarrow> True | _ \<Rightarrow> False)"

definition set_add :: "json \<Rightarrow> json list \<Rightarrow> json list" where
  "set_add v members = (if \<not> is_reference v \<and> v \<in> set members then members else members @ [v])"

definition set_has :: "json list \<Rightarrow> string \<Rightarrow> bool" where
  "set_has members s = (JStr s \<in> set members)"

section \<open>The event action handler\<close>

text \<open>
  A request: its method and the outcome of \<open>await req.json()\<close>, either the message of
  the error it throws or the parsed value.
\<close>

record request =
  req_method :: string
  req_body :: "string + json"

record response =
  status :: nat
  content :: json

text \<open>
  \<open>handleEventAction\<close> (identical in both servers). \<open>typeError\<close> gives the message of
  the \<open>TypeError\<close> that the engine raises at an expression: at the destructuring of a
  \<open>null\<close> body, and at a value of the log line that cannot be converted to a string.
\<close>

definition server_error :: "string \<Rightarrow> string \<Rightarrow> response" where
  "server_error what message =
     \<lparr>status = 500, content = JObj [(''error'', JStr what), (''message'', JStr message)]\<rparr>"

definition client_error :: "nat \<Rightarrow> string \<Rightarrow> response" where
  "client_error code what = \<lparr>status = code, content = JObj [(''error'', JStr what)]\<rparr>"

text \<open>
  The template literal \<open>`${action} event: ${eventId} from ${source}`\<close> handed to
  \<open>console.log\<close>: the line, or the message of the error raised by the first value, from
  the left, that cannot be converted. A \<open>source\<close> that is \<open>undefined\<close> prints as such.
\<close>

definition log_line :: "(string \<Rightarrow> string) \<Rightarrow> json \<Rightarrow> json \<Rightarrow> json option \<Rightarrow> string + string" where
  "log_line typeError action eventId source' =
     (if \<not> convertible action then Inl (typeError ''action'')
      else if \<not> convertible eventId then Inl (typeError ''eventId'')
      else (case source' of
              None \<Rightarrow> Inr (js_to_string action @ '' event: '' @ js_to_string eventId
                            @ '' from undefined'')
            | Some s \<Rightarrow>
                if \<not> convertible s then Inl (typeError ''source'')
                else Inr (js_to_string action @ '' event: '' @ js_to_string eventId
                          @ '' from '' @ js_to_string s)))"

definition handleEventAction ::
  "(string \<Rightarrow> string) \<Rightarrow> action_store \<Rightarrow> request \<Rightarrow> response \<times> action_store" where
  "handleEventAction typeError store req =
     (if req_method req \<noteq> ''POST'' then (client_error 405 ''Method not allowed'', store)
      else (case req_body req of
              Inl message \<Rightarrow> (server_error ''Failed to process event action'' message, store)
            | Inr JNull \<Rightarrow>
                (server_error ''Failed to process event action'' (typeError ''body''), store)
            | Inr b \<Rightarrow>
                (let eventId = get_prop ''eventId'' b; action = get_prop ''action'' b;
                     source' = get_prop ''source'' b in
                 if \<not> js_truthy eventId \<or> \<not> js_truthy action
                 then (client_error 400 ''Event ID and action required'', store)
                 else (case (eventId, action) of
                         (Some ev, Some act) \<Rightarrow>
                           (case log_line typeError act ev source' of
                              Inl message \<Rightarrow>
                                (server_error ''Failed to process event action'' message, store)
                            | Inr line \<Rightarrow>
                                (let ok = \<lparr>status = 200,
                                           content = JObj [(''success'', JBool True), (''eventId'', ev),
                                             (''action'', act),
                                             (''message'', JStr (''Event '' @ js_to_string act
                                                @ ''d successfully''))]\<rparr>
                                 in if act = JStr ''complete''
                                    then (ok, store\<lparr>completedEvents :=
                                                 set_add ev (completedEvents store)\<rparr>)
                                    else if act = JStr ''dismiss''
                                    then (ok, store\<lparr>dismissedEvents :=
                                                 set_add ev (dismissedEvents store)\<rparr>)
                                    else (client_error 400 ''Invalid action'', store)))
                       | _ \<Rightarrow> (client_error 400 ''Event ID and action required'', store)))))"

text \<open>The store after a sequence of requests to the handler.\<close>

fun run_actions :: "(string \<Rightarrow> string) \<Rightarrow> action_store \<Rightarrow> request list \<Rightarrow> action_store" where
  "run_actions typeError store [] = store"
| "run_actions typeError store (req # reqs) =
     run_actions typeError (snd (handleEventAction typeError store req)) reqs"

section \<open>The calendar aggregator\<close>

record env =
  TODOIST_CALENDAR_URL :: string
  APPLE_CALENDAR_URL :: string
  UK_HOLIDAYS_CALENDAR_URL :: string
  OPENWEATHER_API_KEY :: string
  WEATHER_LAT :: string
  WEATHER_LON :: string
  WEATHER_UNITS :: string
  WEATHER_EXCLUDE :: string

definition calendarSources :: "env \<Rightarrow> (string \<times> string) list" where
  "calendarSources ev =
     [(''Todoist'', TODOIST_CALENDAR_URL ev),
      (''Apple Calendar'', APPLE_CALENDAR_URL ev),
      (''UK Holidays'', UK_HOLIDAYS_CALENDAR_URL ev)]"

text \<open>\<open>!url || url.includes("your_") || url.includes("_here")\<close>.\<close>

definition not_configured :: "string \<Rightarrow> bool" where
  "not_configured url = (url = [] \<or> includes_str url ''your_'' \<or> includes_str url ''_here'')"

text \<open>
  What the network does for the request of one source: \<open>fetch\<close> throws, the response is
  not \<open>ok\<close>, reading the text throws, or the text arrives.
\<close>

datatype ics_fetch = FetchThrows | NotOk | TextThrows | Text string

text \<open>
  The body of the inner \<open>try\<close> for the source number \<open>i\<close>: \<^term>\<open>Inl\<close> is a throw. The
  clock \<open>clock i\<close> runs while that source is parsed.
\<close>

definition load_source ::
  "(runtime \<Rightarrow> string \<Rightarrow> string \<Rightarrow> 'e list) \<Rightarrow> runtime \<Rightarrow> (nat \<Rightarrow> nat \<Rightarrow> int)
     \<Rightarrow> (nat \<Rightarrow> string \<Rightarrow> ics_fetch) \<Rightarrow> nat \<Rightarrow> string \<times> string \<Rightarrow> string + 'e list" where
  "load_source parse rt clock fetch i src =
     (let calendarUrl = replace_first ''webcal://'' ''https://'' (snd src) in
      case fetch i calendarUrl of
        FetchThrows \<Rightarrow> Inl ''fetch failed''
      | NotOk \<Rightarrow> Inl ''HTTP error''
      | TextThrows \<Rightarrow> Inl ''body failed''
      | Text icsData \<Rightarrow> Inr (parse (rt\<lparr>Date_now := clock i\<rparr>) icsData (fst src)))"

text \<open>The \<open>for (const source of calendarSources)\<close> loop, from source number \<open>i\<close> on.\<close>

fun collect ::
  "(runtime \<Rightarrow> string \<Rightarrow> string \<Rightarrow> 'e list) \<Rightarrow> runtime \<Rightarrow> (nat \<Rightarrow> nat \<Rightarrow> int)
     \<Rightarrow> (nat \<Rightarrow> string \<Rightarrow> ics_fetch) \<Rightarrow> nat \<Rightarrow> (string \<times> string) list \<Rightarrow> 'e list \<Rightarrow> 'e list" where
  "collect parse rt clock fetch i [] allEvents = allEvents"
| "collect parse rt clock fetch i (src # rest) allEvents =
     collect parse rt clock fetch (Suc i) rest
       (if not_configured (snd src) then allEvents
        else (case load_source parse rt clock fetch i src of
                Inl _ \<Rightarrow> allEvents
              | Inr events \<Rightarrow> allEvents @ events))"

text \<open>\<open>new Date(a.date).getTime() - new Date(b.date).getTime()\<close>; \<^term>\<open>None\<close> is \<open>NaN\<close>.\<close>

definition by_date :: "runtime \<Rightarrow> 'a calendar_event_scheme \<Rightarrow> 'a calendar_event_scheme \<Rightarrow> int option" where
  "by_date rt a b =
     (case (Date_parse rt (date a), Date_parse rt (date b)) of
        (Some x, Some y) \<Rightarrow> Some (x - y)
      | _ \<Rightarrow> None)"

text \<open>
  \<open>filteredEvents.sort(...)\<close> with that comparator. A comparator that yields \<open>NaN\<close> for
  some pair of the array is not consistent on it, and the difference of two instants is
  consistent on an array all of whose dates parse. For a consistent comparator the
  language fixes the result, and the sort is stable: every engine returns the array that
  an insertion sort computes. For any other the order is left to the engine, and
  \<open>engine\<close> is what its sort makes of the array then. The sort works in place, so it
  returns the same elements in some order; a function that is no rearrangement stands for
  no sort, and the array stays as it is.
\<close>

definition dates_parse :: "runtime \<Rightarrow> 'a calendar_event_scheme list \<Rightarrow> bool" where
  "dates_parse rt xs = list_all (\<lambda>e. Date_parse rt (date e) \<noteq> None) xs"

text \<open>A sort by insertion; a comparison that is \<open>NaN\<close> counts as zero.\<close>

definition not_after :: "int option \<Rightarrow> bool" where
  "not_after c = (case c of None \<Rightarrow> True | Some v \<Rightarrow> v \<le> 0)"

fun insert_by :: "('a \<Rightarrow> 'a \<Rightarrow> int option) \<Rightarrow> 'a \<Rightarrow> 'a list \<Rightarrow> 'a list" where
  "insert_by cmp x [] = [x]"
| "insert_by cmp x (y # ys) = (if not_after (cmp x y) then x # y # ys else y # insert_by cmp x ys)"

definition insertion_sort :: "('a \<Rightarrow> 'a \<Rightarrow> int option) \<Rightarrow> 'a list \<Rightarrow> 'a list" where
  "insertion_sort cmp xs = foldr (insert_by cmp) xs []"

definition rearranged :: "('a list \<Rightarrow> 'a list) \<Rightarrow> 'a list \<Rightarrow> 'a list" where
  "rearranged f xs = (if mset (f xs) = mset xs then f xs else xs)"

definition Array_sort ::
  "(('a calendar_event_scheme \<Rightarrow> 'a calendar_event_scheme \<Rightarrow> int option)
      \<Rightarrow> 'a calendar_event_scheme list \<Rightarrow> 'a calendar_event_scheme list)
     \<Rightarrow> runtime \<Rightarrow> 'a calendar_event_scheme list \<Rightarrow> 'a calendar_event_scheme list" where
  "Array_sort engine rt xs =
     (if dates_parse rt xs then insertion_sort (by_date rt) xs
      else rearranged (engine (by_date rt)) xs)"

definition not_actioned :: "action_store \<Rightarrow> 'a calendar_event_scheme \<Rightarrow> bool" where
  "not_actioned store event =
     (\<not> set_has (completedEvents store) (event_id event)
      \<and> \<not> set_has (dismissedEvents store) (event_id event))"

record 'e calendar_response =
  cal_status :: nat
  events :: "'e list"
  total_events :: nat
  filtered_events :: nat
  completed_count :: nat
  dismissed_count :: nat
  sources :: "(string \<times> bool) list"

text \<open>
  \<open>handleAppleCalendar\<close>, the same text in both servers, over the parser of each and the
  sort of the engine. Nothing in its outer \<open>try\<close> can throw, so the answer always has
  status 200.
\<close>

definition aggregate ::
  "(runtime \<Rightarrow> string \<Rightarrow> string \<Rightarrow> 'a calendar_event_scheme list)
     \<Rightarrow> (('a calendar_event_scheme \<Rightarrow> 'a calendar_event_scheme \<Rightarrow> int option)
          \<Rightarrow> 'a calendar_event_scheme list \<Rightarrow> 'a calendar_event_scheme list)
     \<Rightarrow> env \<Rightarrow> runtime
     \<Rightarrow> (nat \<Rightarrow> nat \<Rightarrow> int) \<Rightarrow> (nat \<Rightarrow> string \<Rightarrow> ics_fetch) \<Rightarrow> action_store
     \<Rightarrow> 'a calendar_event_scheme calendar_response" where
  "aggregate parse engine ev rt clock fetch store =
     (let allEvents = collect parse rt clock fetch 0 (calendarSources ev) [];
          filteredEvents = Array_sort engine rt (filter (not_actioned store) allEvents)
      in \<lparr>cal_status = 200,
          events = filteredEvents,
          total_events = length allEvents,
          filtered_events = length filteredEvents,
          completed_count = length (completedEvents store),
          dismissed_count = length (dismissedEvents store),
          sources = map (\<lambda>s. (fst s, \<not> not_configured (snd s))) (calendarSources ev)\<rparr>)"

definition handleAppleCalendar ::
  "((calendar_event \<Rightarrow> calendar_event \<Rightarrow> int option) \<Rightarrow> calendar_event list \<Rightarrow> calendar_event list)
     \<Rightarrow> env \<Rightarrow> runtime \<Rightarrow> (nat \<Rightarrow> nat \<Rightarrow> int) \<Rightarrow> (nat \<Rightarrow> string \<Rightarrow> ics_fetch) \<Rightarrow> action_store
     \<Rightarrow> calendar_event calendar_response" where
  "handleAppleCalendar = aggregate parseICSData"

definition handleAppleCalendar_backup ::
  "((calendar_event_backup \<Rightarrow> calendar_event_backup \<Rightarrow> int option)
       \<Rightarrow> calendar_event_backup list \<Rightarrow> calendar_event_backup list)
     \<Rightarrow> env \<Rightarrow> runtime \<Rightarrow> (nat \<Rightarrow> nat \<Rightarrow> int) \<Rightarrow> (nat \<Rightarrow> string \<Rightarrow> ics_fetch) \<Rightarrow> action_store
     \<Rightarrow> calendar_event_backup calendar_response" where
  "handleAppleCalendar_backup = aggregate parseICSData_backup"

text \<open>The key the comparator orders by, for an event whose date parses.\<close>

definition date_key :: "runtime \<Rightarrow> 'a calendar_event_scheme \<Rightarrow> int" where
  "date_key rt event = (case Date_parse rt (date event) of Some t \<Rightarrow> t | None \<Rightarrow> 0)"

text \<open>The array \<open>allEvents\<close> when the loop over the sources has ended, for each server.\<close>

definition allEvents ::
  "env \<Rightarrow> runtime \<Rightarrow> (nat \<Rightarrow> nat \<Rightarrow> int) \<Rightarrow> (nat \<Rightarrow> string \<Rightarrow> ics_fetch) \<Rightarrow> calendar_event list" where
  "allEvents ev rt clock fetch = collect parseICSData rt clock fetch 0 (calendarSources ev) []"

definition allEvents_backup ::
  "env \<Rightarrow> runtime \<Rightarrow> (nat \<Rightarrow> nat \<Rightarrow> int) \<Rightarrow> (nat \<Rightarrow> string \<Rightarrow> ics_fetch)
     \<Rightarrow> calendar_event_backup list" where
  "allEvents_backup ev rt clock fetch =
     collect parseICSData_backup rt clock fetch 0 (calendarSources ev) []"

section \<open>A small deployment for concrete runs\<close>

text \<open>
  One feed is configured with a \<open>webcal\<close> address, one is left as a placeholder, and the
  holiday feed has its default address. The first feed holds three events, two of them on
  the same day with the later time first.
\<close>

definition example_env :: env where
  "example_env =
     \<lparr>TODOIST_CALENDAR_URL = ''webcal://todoist.example/cal.ics'',
      APPLE_CALENDAR_URL = ''your_apple_calendar_url_here'',
      UK_HOLIDAYS_CALENDAR_URL = ''https://www.gov.uk/bank-holidays/england-and-wales.ics'',
      OPENWEATHER_API_KEY = ''key'', WEATHER_LAT = ''51.5074'', WEATHER_LON = ''-0.1278'',
      WEATHER_UNITS = ''metric'', WEATHER_EXCLUDE = ''minutely''\<rparr>"

definition example_feed :: string where
  "example_feed =
     ''BEGIN:VEVENT\<newline>SUMMARY:B\<newline>DTSTART:20250616T090000\<newline>UID:b\<newline>END:VEVENT\<newline>''
     @ ''BEGIN:VEVENT\<newline>SUMMARY:A1\<newline>DTSTART:20250615T100000\<newline>UID:a1\<newline>END:VEVENT\<newline>''
     @ ''BEGIN:VEVENT\<newline>SUMMARY:A2\<newline>DTSTART:20250615T090000\<newline>UID:a2\<newline>END:VEVENT''"

text \<open>The first feed answers, every other request throws.\<close>

definition example_fetch :: "nat \<Rightarrow> string \<Rightarrow> ics_fetch" where
  "example_fetch i url =
     (if url = ''https://todoist.example/cal.ics'' then Text example_feed else FetchThrows)"

definition example_runtime :: runtime where
  "example_runtime = fixed_runtime 1000 ''2025-11-02T10:00:00.000Z'' 0"

definition example_event :: "string \<Rightarrow> string \<Rightarrow> string \<Rightarrow> string \<Rightarrow> calendar_event" where
  "example_event i t d tm =
     \<lparr>event_id = i, title = t, date = d, time = tm, duration = ''1 hour'', description = [],
      location = [], priority = ''medium'', source = ''Todoist''\<rparr>"

text \<open>
  A feed of four events, the second and the third with a start that is no date, and a
  network on which the first feed is it.
\<close>

definition misdated_feed :: string where
  "misdated_feed =
     ''BEGIN:VEVENT\<newline>SUMMARY:B\<newline>DTSTART:20250616T090000\<newline>UID:b\<newline>END:VEVENT\<newline>''
     @ ''BEGIN:VEVENT\<newline>SUMMARY:X1\<newline>DTSTART:ABCDEFGH\<newline>UID:x1\<newline>END:VEVENT\<newline>''
     @ ''BEGIN:VEVENT\<newline>SUMMARY:X2\<newline>DTSTART:ABCDEFGH\<newline>UID:x2\<newline>END:VEVENT\<newline>''
     @ ''BEGIN:VEVENT\<newline>SUMMARY:A\<newline>DTSTART:20250615T090000\<newline>UID:a\<newline>END:VEVENT''"

definition misdated_fetch :: "nat \<Rightarrow> string \<Rightarrow> ics_fetch" where
  "misdated_fetch i url =
     (if url = ''https://todoist.example/cal.ics'' then Text misdated_feed else FetchThrows)"

section \<open>Isolation and counts, as specified\<close>

text \<open>
  What one source adds to \<open>allEvents\<close>, given the outcome of its own request and the clock
  that runs while it is parsed: nothing when it is not configured or its request fails.
\<close>

definition contribution ::
  "(runtime \<Rightarrow> string \<Rightarrow> string \<Rightarrow> 'e list) \<Rightarrow> runtime \<Rightarrow> (nat \<Rightarrow> int) \<Rightarrow> ics_fetch
     \<Rightarrow> string \<times> string \<Rightarrow> 'e list" where
  "contribution parse rt c outcome src =
     (if not_configured (snd src) then []
      else (case outcome of
              Text icsData \<Rightarrow> parse (rt\<lparr>Date_now := c\<rparr>) icsData (fst src)
            | _ \<Rightarrow> []))"

text \<open>
  The accumulated list without the events whose id is a member of the completed or of the
  dismissed set.
\<close>

definition surviving :: "action_store \<Rightarrow> 'a calendar_event_scheme list \<Rightarrow> 'a calendar_event_scheme list" where
  "surviving store all =
     filter (\<lambda>e. JStr (event_id e) \<notin> set (completedEvents store)
                 \<and> JStr (event_id e) \<notin> set (dismissedEvents store)) all"

definition calendar_url :: "string \<Rightarrow> string" where
  "calendar_url url = replace_first ''webcal://'' ''https://'' url"

text \<open>
  The number of ids in the union of the completed and the dismissed set that are present
  among the aggregated events.
\<close>

definition actioned_id :: "action_store \<Rightarrow> string \<Rightarrow> bool" where
  "actioned_id store i = (set_has (completedEvents store) i \<or> set_has (dismissedEvents store) i)"

definition excluded_id_count :: "action_store \<Rightarrow> 'a calendar_event_scheme list \<Rightarrow> nat" where
  "excluded_id_count store all = length (remdups (filter (actioned_id store) (map event_id all)))"

text \<open>A request that records \<open>action\<close> on the event \<open>i\<close>.\<close>

definition action_request :: "string \<Rightarrow> string \<Rightarrow> request" where
  "action_request i action =
     \<lparr>req_method = ''POST'',
      req_body = Inr (JObj [(''eventId'', JStr i), (''action'', JStr action)])\<rparr>"

text \<open>A feed of two events without \<open>UID\<close>, and a network on which the first feed is it.\<close>

definition anonymous_feed :: string where
  "anonymous_feed =
     ''BEGIN:VEVENT\<newline>SUMMARY:One\<newline>DTSTART:20250615T090000\<newline>END:VEVENT\<newline>''
     @ ''BEGIN:VEVENT\<newline>SUMMARY:Two\<newline>DTSTART:20250616T090000\<newline>END:VEVENT''"

definition anonymous_fetch :: "nat \<Rightarrow> string \<Rightarrow> ics_fetch" where
  "anonymous_fetch i url =
     (if url = ''https://todoist.example/cal.ics'' then Text anonymous_feed else FetchThrows)"

text \<open>
  The \<open>action\<close>, the \<open>eventId\<close> and the \<open>source\<close> of a body, where it has them, can
  each be converted to a string.
\<close>

definition loggable :: "json \<Rightarrow> bool" where
  "loggable b =
     list_all (\<lambda>name. case get_prop name b of None \<Rightarrow> True | Some v \<Rightarrow> convertible v)
       [''action'', ''eventId'', ''source'']"

text \<open>The answer to a valid action request.\<close>

definition success :: "json \<Rightarrow> string \<Rightarrow> response" where
  "success ev action =
     \<lparr>status = 200,
      content = JObj [(''success'', JBool True), (''eventId'', ev), (''action'', JStr action),
                      (''message'', JStr (''Event '' @ action @ ''d successfully''))]\<rparr>"

section \<open>The weather cache\<close>


















section \<open>Verification\<close>

subsection \<open>String primitives\<close>

lemma startsWith_single: "startsWith (x # xs) [c] = (x = c)"
  by (simp add: startsWith_def)

lemma includes_str_single: "includes_str s [c] = (c \<in> set s)"
  by (induction s) (auto simp: startsWith_single)

lemma split_chr_not_Nil: "split_chr c s \<noteq> []"
  by (induction s) (auto split: list.splits)

lemma before_first_takeWhile: "before_first c s = takeWhile (\<lambda>x. x \<noteq> c) s"
proof (induction s)
  case Nil
  show ?case by (simp add: before_first_def)
next
  case (Cons x xs)
  then show ?case
    using split_chr_not_Nil [of c xs]
    by (auto simp: before_first_def split: list.splits)
qed

lemma takeWhile_take:
  assumes "n < length s" "\<forall>x \<in> set (take n s). P x" "\<not> P (s ! n)"
  shows "takeWhile P s = take n s"
proof -
  have "s = take n s @ (s ! n) # drop (Suc n) s"
    using assms(1) by (simp add: id_take_nth_drop)
  then have "takeWhile P s = takeWhile P (take n s @ (s ! n) # drop (Suc n) s)"
    by simp
  also have "\<dots> = take n s"
    using assms(2,3) by (simp add: takeWhile_append2 del: append_take_drop_id)
  finally show ?thesis .
qed

lemma is_digit_not_T: "is_digit c \<Longrightarrow> c \<noteq> CHR ''T''"
  by (auto simp: is_digit_def)

lemma datetime_token_date_part:
  assumes "datetime_token s"
  shows "takeWhile (\<lambda>c. c \<noteq> CHR ''T'') s = take 8 s"
proof (rule takeWhile_take)
  show "8 < length s" using assms by (simp add: datetime_token_def)
  show "\<forall>x\<in>set (take 8 s). x \<noteq> CHR ''T''"
    using assms by (auto simp: datetime_token_def list_all_iff dest: is_digit_not_T)
  show "\<not> s ! 8 \<noteq> CHR ''T''" using assms by (simp add: datetime_token_def)
qed

lemma ymd_take8: "ymd (take 8 s) = take 4 s @ ''-'' @ take 2 (drop 4 s) @ ''-'' @ take 2 (drop 6 s)"
  by (simp add: ymd_def substring_def min_def take_drop)

lemma ymd_len8: "length s = 8 \<Longrightarrow> ymd s = take 4 s @ ''-'' @ take 2 (drop 4 s) @ ''-'' @ take 2 (drop 6 s)"
  using ymd_take8 [of s] by simp

subsection \<open>The date formatter\<close>

text \<open>
  Claim C9, as the code has it. An eight-digit token and a token that starts with eight
  digits and \<open>T\<close> are rendered as \<open>YYYY-MM-DD\<close>. No character is checked: every token
  of length eight, and every other token that contains \<open>T\<close> (through its part before the
  first \<open>T\<close>), is cut at positions 4 and 6 in the same way. Today's date is returned for
  a missing token and for a token that neither has length eight nor contains \<open>T\<close>.
\<close>

theorem formatICSDate_tokens:
  "(date_token s \<or> datetime_token s \<longrightarrow>
      formatICSDate isoNow (Some s) = take 4 s @ ''-'' @ take 2 (drop 4 s) @ ''-'' @ take 2 (drop 6 s))
   \<and> (length s = 8 \<longrightarrow> formatICSDate isoNow (Some s) = ymd s)
   \<and> (length s \<noteq> 8 \<and> CHR ''T'' \<in> set s \<longrightarrow>
        formatICSDate isoNow (Some s) = ymd (takeWhile (\<lambda>c. c \<noteq> CHR ''T'') s))
   \<and> (length s \<noteq> 8 \<and> CHR ''T'' \<notin> set s \<longrightarrow> formatICSDate isoNow (Some s) = today isoNow)
   \<and> formatICSDate isoNow None = today isoNow"
proof (intro conjI impI)
  assume tok: "date_token s \<or> datetime_token s"
  show "formatICSDate isoNow (Some s) = take 4 s @ ''-'' @ take 2 (drop 4 s) @ ''-'' @ take 2 (drop 6 s)"
  proof (cases "date_token s")
    case True
    then have "length s = 8" by (simp add: date_token_def)
    then show ?thesis
      by (auto simp: formatICSDate_def truthy_def ymd_len8)
  next
    case False
    with tok have dt: "datetime_token s" by simp
    then have len: "8 < length s" and s8: "s ! 8 = CHR ''T''"
      by (auto simp: datetime_token_def)
    from len have "s ! 8 \<in> set s" by (rule nth_mem)
    with s8 have T: "CHR ''T'' \<in> set s" by simp
    from len have "s \<noteq> []" by auto
    with len T show ?thesis
      by (simp add: formatICSDate_def truthy_def includes_str_single before_first_takeWhile
            datetime_token_date_part [OF dt] ymd_take8)
  qed
next
  assume "length s = 8"
  then show "formatICSDate isoNow (Some s) = ymd s"
    by (auto simp: formatICSDate_def truthy_def)
next
  assume "length s \<noteq> 8 \<and> CHR ''T'' \<in> set s"
  then show "formatICSDate isoNow (Some s) = ymd (takeWhile (\<lambda>c. c \<noteq> CHR ''T'') s)"
    by (auto simp: formatICSDate_def truthy_def includes_str_single before_first_takeWhile)
next
  assume "length s \<noteq> 8 \<and> CHR ''T'' \<notin> set s"
  then show "formatICSDate isoNow (Some s) = today isoNow"
    by (auto simp: formatICSDate_def truthy_def includes_str_single today_def)
next
  show "formatICSDate isoNow None = today isoNow"
    by (simp add: formatICSDate_def truthy_def today_def)
qed

theorem formatICSDate_tokens_witness:
  "formatICSDate ''2025-11-02T10:00:00.000Z'' (Some ''20250615T090000'') = ''2025-06-15''
   \<and> formatICSDate ''2025-11-02T10:00:00.000Z'' (Some ''20250615'') = ''2025-06-15''
   \<and> formatICSDate ''2025-11-02T10:00:00.000Z'' (Some ''garbage'') = ''2025-11-02''"
  using formatICSDate_tokens [of "''20250615T090000''" "''2025-11-02T10:00:00.000Z''"]
    formatICSDate_tokens [of "''20250615''" "''2025-11-02T10:00:00.000Z''"]
    formatICSDate_tokens [of "''garbage''" "''2025-11-02T10:00:00.000Z''"]
  by (simp add: date_token_def datetime_token_def is_digit_def today_def before_first_def)

text \<open>
  Claim C9 as stated fails: \<open>ABCDEFGH\<close> is neither an eight-digit token nor a date and
  time token, and it is not mapped to today's date.
\<close>

theorem formatICSDate_fallback_counterexample:
  "\<not> date_token ''ABCDEFGH'' \<and> \<not> datetime_token ''ABCDEFGH''
   \<and> formatICSDate ''2025-11-02T10:00:00.000Z'' (Some ''ABCDEFGH'') = ''ABCD-EF-GH''
   \<and> today ''2025-11-02T10:00:00.000Z'' = ''2025-11-02''"
  by (simp add: date_token_def datetime_token_def is_digit_def today_def before_first_def
        formatICSDate_def truthy_def ymd_def substring_def)

subsection \<open>Durations\<close>

lemma round_div_pos_iff: "0 < d \<Longrightarrow> (0 < round_div x d) = (d \<le> 2 * x)"
proof -
  assume d: "0 < d"
  then have "(0 < (2 * x + d) div (2 * d)) = (2 * d \<le> 2 * x + d)"
    by (simp add: pos_imp_zdiv_pos_iff)
  then show ?thesis by (auto simp: round_div_def)
qed

lemma bucket_nonpositive: "d \<le> 0 \<Longrightarrow> bucket d = ''1 hour''"
  by (simp add: bucket_def)

lemma bucket_days:
  "86400000 \<le> d \<Longrightarrow> bucket d = string_of_int (d div 86400000) @ '' day'' @ plural (d div 86400000)"
  by (simp add: bucket_def Let_def pos_imp_zdiv_pos_iff)

lemma bucket_hours:
  "1800000 \<le> d \<Longrightarrow> d < 86400000 \<Longrightarrow>
   bucket d = string_of_int (round_div d 3600000) @ '' hour'' @ plural (round_div d 3600000)"
  by (simp add: bucket_def Let_def pos_imp_zdiv_pos_iff round_div_pos_iff)

lemma bucket_minutes:
  "30000 \<le> d \<Longrightarrow> d < 1800000 \<Longrightarrow>
   bucket d = string_of_int (round_div d 60000) @ '' minute'' @ plural (round_div d 60000)"
  by (simp add: bucket_def Let_def pos_imp_zdiv_pos_iff round_div_pos_iff)

lemma bucket_seconds: "d < 30000 \<Longrightarrow> bucket d = ''1 hour''"
  by (simp add: bucket_def Let_def pos_imp_zdiv_pos_iff round_div_pos_iff)

lemma bucket_eq_spec: "bucket d = bucket_spec d"
  unfolding bucket_spec_def
  using bucket_nonpositive [of d] bucket_days [of d] bucket_hours [of d] bucket_minutes [of d]
    bucket_seconds [of d]
  by (simp split: if_splits)

text \<open>The equations that run the reference \<open>Date\<close> and the formatters on literals.\<close>

lemmas eval_date =
  fixed_runtime_def ecma_parse_def date_ms_def time_ms_def shape_date_def shape_time_def
  is_digit_def digits_val_def days_from_civil_def days_in_month_def matches_datetime_def
  matches_date_def substring_def round_div_def string_of_int_def digit_char_def plural_def
  startsWith_def

text \<open>
  Claim C6, as the code has it. In \<open>server-backup.ts\<close> two present tokens that both
  parse are bucketed on their difference: days from one day on, else rounded hours from
  half an hour on, else rounded minutes from half a minute on, else \<open>1 hour\<close>; a
  difference of zero or less, a missing token and an unparseable token give \<open>1 hour\<close>.
  In \<open>server.ts\<close> there are rounded hours only. On the tokens \<open>20250615T090000\<close> and
  \<open>20250615T110000\<close> both give \<open>2 hours\<close>, in every zone at a fixed offset.
\<close>

theorem calculateDuration_buckets:
  "(s \<noteq> [] \<and> e \<noteq> [] \<and> to_instant rt s = Some a \<and> to_instant rt e = Some b \<longrightarrow>
      calculateDuration_backup rt (Some s) (Some e) False = bucket_spec (b - a))
   \<and> (\<not> truthy start \<or> \<not> truthy end' \<longrightarrow>
        calculateDuration_backup rt start end' False = ''1 hour'')
   \<and> (to_instant rt s = None \<or> to_instant rt e = None \<longrightarrow>
        calculateDuration_backup rt (Some s) (Some e) False = ''1 hour'')
   \<and> (s \<noteq> [] \<and> e \<noteq> [] \<and> Date_parse rt (replace_datetime s) = Some a
        \<and> Date_parse rt (replace_datetime e) = Some b \<longrightarrow>
        calculateDuration rt (Some s) (Some e) = hours_spec (b - a))
   \<and> (\<not> truthy start \<or> \<not> truthy end' \<longrightarrow> calculateDuration rt start end' = ''1 hour'')
   \<and> (Date_parse rt (replace_datetime s) = None \<or> Date_parse rt (replace_datetime e) = None \<longrightarrow>
        calculateDuration rt (Some s) (Some e) = ''1 hour'')
   \<and> calculateDuration_backup (fixed_runtime t isoNow tz)
        (Some ''20250615T090000'') (Some ''20250615T110000'') False = ''2 hours''
   \<and> calculateDuration (fixed_runtime t isoNow tz)
        (Some ''20250615T090000'') (Some ''20250615T110000'') = ''2 hours''"
proof (intro conjI impI)
  assume "s \<noteq> [] \<and> e \<noteq> [] \<and> to_instant rt s = Some a \<and> to_instant rt e = Some b"
  then show "calculateDuration_backup rt (Some s) (Some e) False = bucket_spec (b - a)"
    by (simp add: calculateDuration_backup_def bucket_eq_spec)
next
  assume "\<not> truthy start \<or> \<not> truthy end'"
  then show "calculateDuration_backup rt start end' False = ''1 hour''"
    by (auto simp: calculateDuration_backup_def truthy_def split: option.splits)
next
  assume "to_instant rt s = None \<or> to_instant rt e = None"
  then show "calculateDuration_backup rt (Some s) (Some e) False = ''1 hour''"
    by (auto simp: calculateDuration_backup_def split: option.splits)
next
  assume "s \<noteq> [] \<and> e \<noteq> [] \<and> Date_parse rt (replace_datetime s) = Some a
        \<and> Date_parse rt (replace_datetime e) = Some b"
  then show "calculateDuration rt (Some s) (Some e) = hours_spec (b - a)"
    by (simp add: calculateDuration_def hours_spec_def Let_def round_div_pos_iff)
next
  assume "\<not> truthy start \<or> \<not> truthy end'"
  then show "calculateDuration rt start end' = ''1 hour''"
    by (auto simp: calculateDuration_def truthy_def split: option.splits)
next
  assume "Date_parse rt (replace_datetime s) = None \<or> Date_parse rt (replace_datetime e) = None"
  then show "calculateDuration rt (Some s) (Some e) = ''1 hour''"
    by (auto simp: calculateDuration_def split: option.splits)
next
  show "calculateDuration_backup (fixed_runtime t isoNow tz)
        (Some ''20250615T090000'') (Some ''20250615T110000'') False = ''2 hours''"
    by (simp add: calculateDuration_backup_def to_instant_def bucket_def eval_date)
next
  show "calculateDuration (fixed_runtime t isoNow tz)
        (Some ''20250615T090000'') (Some ''20250615T110000'') = ''2 hours''"
    by (simp add: calculateDuration_def eval_date)
qed

text \<open>
  Claim C6 as stated fails on \<open>server.ts\<close>: two days are reported as \<open>48 hours\<close>, and
  ten minutes as \<open>1 hour\<close>.
\<close>

theorem calculateDuration_days_counterexample:
  "calculateDuration (fixed_runtime 0 [] 0) (Some ''20250615T090000'') (Some ''20250617T090000'')
     = ''48 hours''
   \<and> calculateDuration (fixed_runtime 0 [] 0) (Some ''20250615T090000'') (Some ''20250615T091000'')
     = ''1 hour''"
  by (simp add: calculateDuration_def eval_date)

theorem calculateDuration_buckets_witness:
  "to_instant (fixed_runtime 0 [] 0) ''20250615T090000'' = Some 1749978000000
   \<and> to_instant (fixed_runtime 0 [] 0) ''20250617T090000'' = Some 1750150800000
   \<and> calculateDuration_backup (fixed_runtime 0 [] 0)
        (Some ''20250615T090000'') (Some ''20250617T090000'') False = ''2 days''
   \<and> \<not> truthy None
   \<and> calculateDuration_backup (fixed_runtime 0 [] 0) (Some ''20250615T090000'') None False = ''1 hour''
   \<and> to_instant (fixed_runtime 0 [] 0) ''soon'' = None
   \<and> calculateDuration_backup (fixed_runtime 0 [] 0)
        (Some ''20250615T090000'') (Some ''soon'') False = ''1 hour''
   \<and> calculateDuration (fixed_runtime 0 [] 0)
        (Some ''20250615T090000'') (Some ''20250617T090000'') = ''48 hours''"
proof -
  let ?rt = "fixed_runtime 0 [] 0"
  let ?s = "''20250615T090000''" and ?e = "''20250617T090000''"
  note inst1 = calculateDuration_buckets [of ?s ?e ?rt 1749978000000 1750150800000 "Some ?s" None 0 "[]" 0]
  note inst2 = calculateDuration_buckets [of ?s "''soon''" ?rt 0 0 None None 0 "[]" 0]
  have s: "to_instant ?rt ?s = Some 1749978000000"
    by (simp add: to_instant_def eval_date)
  have e: "to_instant ?rt ?e = Some 1750150800000"
    by (simp add: to_instant_def eval_date)
  have soon: "to_instant ?rt ''soon'' = None"
    by (simp add: to_instant_def eval_date)
  have s': "Date_parse ?rt (replace_datetime ?s) = Some 1749978000000"
    by (simp add: eval_date)
  have e': "Date_parse ?rt (replace_datetime ?e) = Some 1750150800000"
    by (simp add: eval_date)
  have none: "\<not> truthy None"
    by (simp add: truthy_def)
  have "calculateDuration_backup ?rt (Some ?s) (Some ?e) False = bucket_spec (1750150800000 - 1749978000000)"
    using inst1 s e by simp
  then have days: "calculateDuration_backup ?rt (Some ?s) (Some ?e) False = ''2 days''"
    by (simp add: bucket_spec_def string_of_int_def digit_char_def plural_def)
  have missing: "calculateDuration_backup ?rt (Some ?s) None False = ''1 hour''"
    using inst1 none by blast
  have unparseable: "calculateDuration_backup ?rt (Some ?s) (Some ''soon'') False = ''1 hour''"
    using inst2 soon by blast
  have "calculateDuration ?rt (Some ?s) (Some ?e) = hours_spec (1750150800000 - 1749978000000)"
    using inst1 s' e' by simp
  then have hours: "calculateDuration ?rt (Some ?s) (Some ?e) = ''48 hours''"
    by (simp add: hours_spec_def round_div_def string_of_int_def digit_char_def plural_def)
  from s e days none missing soon unparseable hours show ?thesis by blast
qed

subsection \<open>The parser, block by block\<close>

lemma fold_props_snoc:
  "fold_props (ls @ [l]) cur =
     (if includes_str (trim l) '':''
      then set_property (line_key (trim l)) (line_value (trim l)) (fold_props ls cur)
      else fold_props ls cur)"
  by (induction ls arbitrary: cur) simp_all

lemma last_value_Nil: "last_value names [] = None"
  by (simp add: last_value_def property_lines_def)

lemma last_value_snoc:
  "last_value names (ls @ [l]) =
     (if includes_str (trim l) '':'' \<and> line_key (trim l) \<in> set names
      then Some (line_value (trim l)) else last_value names ls)"
  by (simp add: last_value_def property_lines_def)

lemma last_key_Nil: "last_key names [] = None"
  by (simp add: last_key_def property_lines_def)

lemma last_key_snoc:
  "last_key names (ls @ [l]) =
     (if includes_str (trim l) '':'' \<and> line_key (trim l) \<in> set names
      then Some (line_key (trim l)) else last_key names ls)"
  by (simp add: last_key_def property_lines_def)

lemma fold_props_block: "fold_props body empty_event = block_record body"
proof (induction body rule: rev_induct)
  case Nil
  show ?case by (simp add: empty_event_def block_record_def last_value_Nil)
next
  case (snoc l ls)
  then show ?case
    by (simp add: fold_props_snoc block_record_def last_value_snoc set_property_def)
qed

lemma parse_lines_body:
  "\<forall>l \<in> set body. \<not> is_begin l \<and> \<not> is_end l \<Longrightarrow>
   parse_lines rt src k body (evs, Some cur) = (evs, Some (fold_props body cur))"
  by (induction body arbitrary: k cur) (simp_all add: parse_line_def is_begin_def is_end_def Let_def)

lemma parse_lines_append:
  "parse_lines rt src k (xs @ ys) st = parse_lines rt src (k + length xs) ys (parse_lines rt src k xs st)"
  by (induction xs arbitrary: k st) simp_all

lemma parse_line_events:
  "parse_line rt src k l (evs, cur) =
     (evs @ fst (parse_line rt src k l ([], cur)), snd (parse_line rt src k l ([], cur)))"
  by (simp add: parse_line_def Let_def split: option.splits)

lemma parse_lines_events:
  "parse_lines rt src k ls (evs, cur) =
     (evs @ fst (parse_lines rt src k ls ([], cur)), snd (parse_lines rt src k ls ([], cur)))"
proof (induction ls arbitrary: k evs cur)
  case Nil
  show ?case by simp
next
  case (Cons l ls)
  obtain es c where step: "parse_line rt src k l ([], cur) = (es, c)"
    by (cases "parse_line rt src k l ([], cur)")
  have "parse_line rt src k l (evs, cur) = (evs @ es, c)"
    using parse_line_events [of rt src k l evs cur] step by simp
  then show ?case
    using Cons.IH [of "Suc k" "evs @ es" c] Cons.IH [of "Suc k" es c] step by simp
qed

lemma parse_line_begin: "is_begin b \<Longrightarrow> parse_line rt src k b (evs, cur) = (evs, Some empty_event)"
  by (simp add: parse_line_def is_begin_def)

lemma parse_line_end:
  "is_end e \<Longrightarrow>
   parse_line rt src k e (evs, Some cur) =
     (evs @ (if truthy (summary cur) \<and> truthy (dtstart cur) then [make_event rt src k cur] else []), None)"
  by (simp add: parse_line_def is_end_def)

lemma parse_block:
  assumes "is_begin b" "is_end e" "\<forall>l \<in> set body. \<not> is_begin l \<and> \<not> is_end l"
  shows "events_of rt src 0 (pre @ [b] @ body @ [e] @ post) =
           events_of rt src 0 pre
           @ (if emits body
              then [make_event rt src (Suc (length pre + length body)) (block_record body)] else [])
           @ events_of rt src (length pre + length body + 2) post"
proof -
  obtain es c where pre: "parse_lines rt src 0 pre ([], None) = (es, c)"
    by (cases "parse_lines rt src 0 pre ([], None)")
  let ?blk = "if emits body
              then [make_event rt src (Suc (length pre + length body)) (block_record body)] else []"
  have b: "parse_lines rt src (length pre) [b] (es, c) = (es, Some empty_event)"
    using assms(1) by (simp add: parse_line_begin)
  have body: "parse_lines rt src (Suc (length pre)) body (es, Some empty_event)
                = (es, Some (block_record body))"
    using assms(3) by (simp add: parse_lines_body fold_props_block)
  have e: "parse_lines rt src (Suc (length pre + length body)) [e] (es, Some (block_record body))
             = (es @ ?blk, None)"
    using assms(2) by (simp add: parse_line_end emits_def block_record_def)
  have post: "fst (parse_lines rt src (length pre + length body + 2) post (es @ ?blk, None))
                = es @ ?blk @ events_of rt src (length pre + length body + 2) post"
    using parse_lines_events [of rt src "length pre + length body + 2" post "es @ ?blk" None]
    by (simp add: events_of_def)
  have "parse_lines rt src 0 (pre @ [b] @ body @ [e] @ post) ([], None)
          = parse_lines rt src (length pre + length body + 2) post (es @ ?blk, None)"
    using pre b body e by (simp add: parse_lines_append)
  then show ?thesis
    using post pre by (simp add: events_of_def)
qed

lemma fold_props_snoc_backup:
  "fold_props_backup (ls @ [l]) cur =
     (if includes_str (trim l) '':''
      then set_property_backup (line_key (trim l)) (line_value (trim l)) (fold_props_backup ls cur)
      else fold_props_backup ls cur)"
  by (induction ls arbitrary: cur) simp_all

lemma fold_props_block_backup: "fold_props_backup body empty_event_backup = block_record_backup body"
proof (induction body rule: rev_induct)
  case Nil
  show ?case by (simp add: empty_event_backup_def block_record_backup_def last_value_Nil last_key_Nil)
next
  case (snoc l ls)
  then show ?case
    by (simp add: fold_props_snoc_backup block_record_backup_def last_value_snoc last_key_snoc value_type_def startsWith_def set_property_backup_def)
qed

lemma parse_lines_body_backup:
  "\<forall>l \<in> set body. \<not> is_begin l \<and> \<not> is_end l \<Longrightarrow>
   parse_lines_backup rt src k body (evs, Some cur) = (evs, Some (fold_props_backup body cur))"
  by (induction body arbitrary: k cur) (simp_all add: parse_line_backup_def is_begin_def is_end_def Let_def)

lemma parse_lines_append_backup:
  "parse_lines_backup rt src k (xs @ ys) st = parse_lines_backup rt src (k + length xs) ys (parse_lines_backup rt src k xs st)"
  by (induction xs arbitrary: k st) simp_all

lemma parse_line_events_backup:
  "parse_line_backup rt src k l (evs, cur) =
     (evs @ fst (parse_line_backup rt src k l ([], cur)), snd (parse_line_backup rt src k l ([], cur)))"
  by (simp add: parse_line_backup_def Let_def split: option.splits)

lemma parse_lines_events_backup:
  "parse_lines_backup rt src k ls (evs, cur) =
     (evs @ fst (parse_lines_backup rt src k ls ([], cur)), snd (parse_lines_backup rt src k ls ([], cur)))"
proof (induction ls arbitrary: k evs cur)
  case Nil
  show ?case by simp
next
  case (Cons l ls)
  obtain es c where step: "parse_line_backup rt src k l ([], cur) = (es, c)"
    by (cases "parse_line_backup rt src k l ([], cur)")
  have "parse_line_backup rt src k l (evs, cur) = (evs @ es, c)"
    using parse_line_events_backup [of rt src k l evs cur] step by simp
  then show ?case
    using Cons.IH [of "Suc k" "evs @ es" c] Cons.IH [of "Suc k" es c] step by simp
qed

lemma parse_line_begin_backup: "is_begin b \<Longrightarrow> parse_line_backup rt src k b (evs, cur) = (evs, Some empty_event_backup)"
  by (simp add: parse_line_backup_def is_begin_def)

lemma parse_line_end_backup:
  "is_end e \<Longrightarrow>
   parse_line_backup rt src k e (evs, Some cur) =
     (evs @ (if truthy (summary cur) \<and> truthy (dtstart cur) then [make_event_backup rt src k cur] else []), None)"
  by (simp add: parse_line_backup_def is_end_def)

lemma parse_block_backup:
  assumes "is_begin b" "is_end e" "\<forall>l \<in> set body. \<not> is_begin l \<and> \<not> is_end l"
  shows "events_of_backup rt src 0 (pre @ [b] @ body @ [e] @ post) =
           events_of_backup rt src 0 pre
           @ (if emits body
              then [make_event_backup rt src (Suc (length pre + length body)) (block_record_backup body)] else [])
           @ events_of_backup rt src (length pre + length body + 2) post"
proof -
  obtain es c where pre: "parse_lines_backup rt src 0 pre ([], None) = (es, c)"
    by (cases "parse_lines_backup rt src 0 pre ([], None)")
  let ?blk = "if emits body
              then [make_event_backup rt src (Suc (length pre + length body)) (block_record_backup body)] else []"
  have b: "parse_lines_backup rt src (length pre) [b] (es, c) = (es, Some empty_event_backup)"
    using assms(1) by (simp add: parse_line_begin_backup)
  have body: "parse_lines_backup rt src (Suc (length pre)) body (es, Some empty_event_backup)
                = (es, Some (block_record_backup body))"
    using assms(3) by (simp add: parse_lines_body_backup fold_props_block_backup)
  have e: "parse_lines_backup rt src (Suc (length pre + length body)) [e] (es, Some (block_record_backup body))
             = (es @ ?blk, None)"
    using assms(2) by (simp add: parse_line_end_backup emits_def block_record_backup_def)
  have post: "fst (parse_lines_backup rt src (length pre + length body + 2) post (es @ ?blk, None))
                = es @ ?blk @ events_of_backup rt src (length pre + length body + 2) post"
    using parse_lines_events_backup [of rt src "length pre + length body + 2" post "es @ ?blk" None]
    by (simp add: events_of_backup_def)
  have "parse_lines_backup rt src 0 (pre @ [b] @ body @ [e] @ post) ([], None)
          = parse_lines_backup rt src (length pre + length body + 2) post (es @ ?blk, None)"
    using pre b body e by (simp add: parse_lines_append_backup)
  then show ?thesis
    using post pre by (simp add: events_of_backup_def)
qed

lemma join_split_chr: "join_chr c (split_chr c s) = s"
proof (induction s)
  case Nil
  show ?case by simp
next
  case (Cons x xs)
  obtain y ys where sp: "split_chr c xs = y # ys"
    using split_chr_not_Nil [of c xs] by (cases "split_chr c xs") auto
  show ?case
  proof (cases "x = c")
    case True
    with Cons sp show ?thesis by simp
  next
    case False
    with Cons sp show ?thesis by (cases ys) simp_all
  qed
qed

lemma split_chr_key_value:
  "c \<notin> set k \<Longrightarrow> split_chr c (k @ c # v) = k # split_chr c v"
  by (induction k) (auto split: list.splits)

lemma line_key_value:
  assumes "CHR '':'' \<notin> set k"
  shows "line_key (k @ CHR '':'' # v) = k" and "line_value (k @ CHR '':'' # v) = v"
  using assms by (simp_all add: line_key_def line_value_def split_chr_key_value join_split_chr)

lemma emitted_fields:
  assumes "last_value [''SUMMARY''] body = Some X"
    and "last_value [''DTSTART'', ''DTSTART;VALUE=DATE''] body = Some ''20250615T090000''"
  shows "title (make_event rt src k (block_record body)) = (if X = [] then [] else X)"
    and "date (make_event rt src k (block_record body)) = ''2025-06-15''"
    and "time (make_event rt src k (block_record body)) = ''09:00''"
  using assms
  by (simp_all add: make_event_def block_record_def or_else_def formatICSDate_def truthy_def
        formatICSTime_def second_part_def hh_mm_def ymd_def before_first_def substring_def
        startsWith_def)

lemma emitted_fields_backup:
  assumes "last_value [''SUMMARY''] body = Some X"
    and "last_value [''DTSTART'', ''DTSTART;VALUE=DATE''] body = Some ''20250615T090000''"
    and "last_key [''DTSTART'', ''DTSTART;VALUE=DATE''] body = Some ''DTSTART''"
  shows "title (make_event_backup rt src k (block_record_backup body)) = (if X = [] then [] else X)"
    and "date (make_event_backup rt src k (block_record_backup body)) = ''2025-06-15''"
    and "time (make_event_backup rt src k (block_record_backup body)) = ''09:00''"
  using assms
  by (simp_all add: make_event_backup_def block_record_backup_def or_else_def formatICSDate_def
        truthy_def formatICSTime_backup_def second_part_def hh_mm_def ymd_def before_first_def
        substring_def startsWith_def all_day_def value_type_def)

text \<open>
  Claim C1. Take any input whose lines contain a block: a \<open>BEGIN:VEVENT\<close> line, lines
  that neither open nor close a block, and an \<open>END:VEVENT\<close> line. Both parsers return
  the events of the lines before, then one event for the block if and only if the block
  supplies a non-empty summary and a non-empty start, then the events of the lines after.
  A block without a summary line emits nothing. A block whose summary is \<open>X\<close> and
  whose start is \<open>DTSTART:20250615T090000\<close> emits the title \<open>X\<close>, the date
  \<open>2025-06-15\<close> and the time \<open>09:00\<close>.
\<close>

theorem parseICSData_block:
  assumes "split_chr CHR 0x0A icsData = pre @ [b] @ body @ [e] @ post"
    and "is_begin b" and "is_end e"
    and "\<forall>l \<in> set body. \<not> is_begin l \<and> \<not> is_end l"
  shows
   "parseICSData rt icsData src =
      events_of rt src 0 pre
      @ (if emits body
         then [make_event rt src (Suc (length pre + length body)) (block_record body)] else [])
      @ events_of rt src (length pre + length body + 2) post
    \<and> parseICSData_backup rt icsData src =
      events_of_backup rt src 0 pre
      @ (if emits body
         then [make_event_backup rt src (Suc (length pre + length body)) (block_record_backup body)]
         else [])
      @ events_of_backup rt src (length pre + length body + 2) post
    \<and> (last_value [''SUMMARY''] body = None \<longrightarrow> \<not> emits body)
    \<and> (X \<noteq> [] \<and> last_value [''SUMMARY''] body = Some X
        \<and> last_value [''DTSTART'', ''DTSTART;VALUE=DATE''] body = Some ''20250615T090000''
        \<and> last_key [''DTSTART'', ''DTSTART;VALUE=DATE''] body = Some ''DTSTART'' \<longrightarrow>
        emits body
        \<and> title (make_event rt src k (block_record body)) = X
        \<and> date (make_event rt src k (block_record body)) = ''2025-06-15''
        \<and> time (make_event rt src k (block_record body)) = ''09:00''
        \<and> title (make_event_backup rt src k (block_record_backup body)) = X
        \<and> date (make_event_backup rt src k (block_record_backup body)) = ''2025-06-15''
        \<and> time (make_event_backup rt src k (block_record_backup body)) = ''09:00'')"
proof (intro conjI impI)
  show "parseICSData rt icsData src =
      events_of rt src 0 pre
      @ (if emits body
         then [make_event rt src (Suc (length pre + length body)) (block_record body)] else [])
      @ events_of rt src (length pre + length body + 2) post"
    using parse_block [OF assms(2,3,4), of rt src pre post] assms(1)
    by (simp add: parseICSData_def events_of_def)
next
  show "parseICSData_backup rt icsData src =
      events_of_backup rt src 0 pre
      @ (if emits body
         then [make_event_backup rt src (Suc (length pre + length body)) (block_record_backup body)]
         else [])
      @ events_of_backup rt src (length pre + length body + 2) post"
    using parse_block_backup [OF assms(2,3,4), of rt src pre post] assms(1)
    by (simp add: parseICSData_backup_def events_of_backup_def)
next
  assume "last_value [''SUMMARY''] body = None"
  then show "\<not> emits body" by (simp add: emits_def truthy_def)
next
  assume h: "X \<noteq> [] \<and> last_value [''SUMMARY''] body = Some X
        \<and> last_value [''DTSTART'', ''DTSTART;VALUE=DATE''] body = Some ''20250615T090000''
        \<and> last_key [''DTSTART'', ''DTSTART;VALUE=DATE''] body = Some ''DTSTART''"
  then show "emits body" by (simp add: emits_def truthy_def)
  from h show "title (make_event rt src k (block_record body)) = X"
    using emitted_fields(1) [of body X rt src k] by simp
  from h show "date (make_event rt src k (block_record body)) = ''2025-06-15''"
    using emitted_fields(2) [of body X rt src k] by simp
  from h show "time (make_event rt src k (block_record body)) = ''09:00''"
    using emitted_fields(3) [of body X rt src k] by simp
  from h show "title (make_event_backup rt src k (block_record_backup body)) = X"
    using emitted_fields_backup(1) [of body X rt src k] by simp
  from h show "date (make_event_backup rt src k (block_record_backup body)) = ''2025-06-15''"
    using emitted_fields_backup(2) [of body X rt src k] by simp
  from h show "time (make_event_backup rt src k (block_record_backup body)) = ''09:00''"
    using emitted_fields_backup(3) [of body X rt src k] by simp
qed

text \<open>The equations that run the parser on literal feeds.\<close>

lemmas eval_parse =
  trim_def isWhiteSpace_def is_begin_def is_end_def emits_def last_value_def last_key_def
  property_lines_def line_key_def line_value_def truthy_def or_else_def startsWith_def
  make_event_def make_event_backup_def block_record_def block_record_backup_def
  events_of_def events_of_backup_def all_day_def value_type_def
  formatICSDate_def formatICSTime_def formatICSTime_backup_def second_part_def hh_mm_def ymd_def
  before_first_def calculateDuration_def calculateDuration_backup_def to_instant_def

theorem parseICSData_block_witness:
  "split_chr CHR 0x0A ''BEGIN:VEVENT\<newline>SUMMARY:X\<newline>DTSTART:20250615T090000\<newline>END:VEVENT''
     = [] @ [''BEGIN:VEVENT''] @ [''SUMMARY:X'', ''DTSTART:20250615T090000''] @ [''END:VEVENT''] @ []
   \<and> is_begin ''BEGIN:VEVENT'' \<and> is_end ''END:VEVENT''
   \<and> list_all (\<lambda>l. \<not> is_begin l \<and> \<not> is_end l) [''SUMMARY:X'', ''DTSTART:20250615T090000'']
   \<and> parseICSData (fixed_runtime 1000 ''2025-11-02T10:00:00.000Z'' 0)
        ''BEGIN:VEVENT\<newline>SUMMARY:X\<newline>DTSTART:20250615T090000\<newline>END:VEVENT'' ''Feed''
      = [\<lparr>event_id = ''1000'', title = ''X'', date = ''2025-06-15'', time = ''09:00'',
           duration = ''1 hour'', description = [], location = [], priority = ''medium'',
           source = ''Feed''\<rparr>]
   \<and> parseICSData_backup (fixed_runtime 1000 ''2025-11-02T10:00:00.000Z'' 0)
        ''BEGIN:VEVENT\<newline>SUMMARY:X\<newline>DTSTART:20250615T090000\<newline>END:VEVENT'' ''Feed''
      = [\<lparr>event_id = ''1000'', title = ''X'', date = ''2025-06-15'', time = ''09:00'',
           duration = ''1 hour'', description = [], location = [], priority = ''medium'',
           source = ''Feed'', isAllDay = False\<rparr>]
   \<and> split_chr CHR 0x0A ''BEGIN:VEVENT\<newline>DTSTART:20250615T090000\<newline>END:VEVENT''
     = [] @ [''BEGIN:VEVENT''] @ [''DTSTART:20250615T090000''] @ [''END:VEVENT''] @ []
   \<and> list_all (\<lambda>l. \<not> is_begin l \<and> \<not> is_end l) [''DTSTART:20250615T090000'']
   \<and> parseICSData (fixed_runtime 1000 ''2025-11-02T10:00:00.000Z'' 0)
        ''BEGIN:VEVENT\<newline>DTSTART:20250615T090000\<newline>END:VEVENT'' ''Feed'' = []
   \<and> parseICSData_backup (fixed_runtime 1000 ''2025-11-02T10:00:00.000Z'' 0)
        ''BEGIN:VEVENT\<newline>DTSTART:20250615T090000\<newline>END:VEVENT'' ''Feed'' = []"
proof -
  let ?rt = "fixed_runtime 1000 ''2025-11-02T10:00:00.000Z'' 0"
  let ?text = "''BEGIN:VEVENT\<newline>SUMMARY:X\<newline>DTSTART:20250615T090000\<newline>END:VEVENT''"
  let ?body = "[''SUMMARY:X'', ''DTSTART:20250615T090000'']"
  let ?text2 = "''BEGIN:VEVENT\<newline>DTSTART:20250615T090000\<newline>END:VEVENT''"
  let ?body2 = "[''DTSTART:20250615T090000'']"
  have 1: "split_chr CHR 0x0A ?text = [] @ [''BEGIN:VEVENT''] @ ?body @ [''END:VEVENT''] @ []"
    by simp
  have h1b: "split_chr CHR 0x0A ?text2 = [] @ [''BEGIN:VEVENT''] @ ?body2 @ [''END:VEVENT''] @ []"
    by simp
  have 2: "is_begin ''BEGIN:VEVENT''" and 3: "is_end ''END:VEVENT''"
    by (simp_all add: is_begin_def is_end_def trim_def isWhiteSpace_def)
  have 4: "\<forall>l \<in> set ?body. \<not> is_begin l \<and> \<not> is_end l"
    by (simp add: is_begin_def is_end_def trim_def isWhiteSpace_def)
  have h4b: "\<forall>l \<in> set ?body2. \<not> is_begin l \<and> \<not> is_end l"
    by (simp add: is_begin_def is_end_def trim_def isWhiteSpace_def)
  have em: "emits ?body" and em2: "\<not> emits ?body2"
    by (simp_all add: eval_parse)
  have none: "events_of ?rt ''Feed'' k [] = []" "events_of_backup ?rt ''Feed'' k [] = []" for k
    by (simp_all add: events_of_def events_of_backup_def)
  have ev: "make_event ?rt ''Feed'' (Suc (length ([]::string list) + length ?body)) (block_record ?body)
      = \<lparr>event_id = ''1000'', title = ''X'', date = ''2025-06-15'', time = ''09:00'',
           duration = ''1 hour'', description = [], location = [], priority = ''medium'',
           source = ''Feed''\<rparr>"
    by (simp add: eval_parse eval_date)
  have evb: "make_event_backup ?rt ''Feed'' (Suc (length ([]::string list) + length ?body))
        (block_record_backup ?body)
      = \<lparr>event_id = ''1000'', title = ''X'', date = ''2025-06-15'', time = ''09:00'',
           duration = ''1 hour'', description = [], location = [], priority = ''medium'',
           source = ''Feed'', isAllDay = False\<rparr>"
    by (simp add: eval_parse eval_date)
  note one = parseICSData_block [OF 1 2 3 4, of ?rt "''Feed''" "''X''" 3]
  note zero = parseICSData_block [OF h1b 2 3 h4b, of ?rt "''Feed''" "''X''" 2]
  have a: "parseICSData ?rt ?text ''Feed''
      = [\<lparr>event_id = ''1000'', title = ''X'', date = ''2025-06-15'', time = ''09:00'',
           duration = ''1 hour'', description = [], location = [], priority = ''medium'',
           source = ''Feed''\<rparr>]"
    using one [THEN conjunct1] by (simp only: em none ev if_True append_Nil append_Nil2)
  have b: "parseICSData_backup ?rt ?text ''Feed''
      = [\<lparr>event_id = ''1000'', title = ''X'', date = ''2025-06-15'', time = ''09:00'',
           duration = ''1 hour'', description = [], location = [], priority = ''medium'',
           source = ''Feed'', isAllDay = False\<rparr>]"
    using one [THEN conjunct2, THEN conjunct1]
    by (simp only: em none evb if_True append_Nil append_Nil2)
  have c: "parseICSData ?rt ?text2 ''Feed'' = []"
    using zero [THEN conjunct1] by (simp only: em2 none if_False append_Nil)
  have d: "parseICSData_backup ?rt ?text2 ''Feed'' = []"
    using zero [THEN conjunct2, THEN conjunct1] by (simp only: em2 none if_False append_Nil)
  from 1 h1b 2 3 4 h4b a b c d show ?thesis by (simp only: list_all_iff; blast)
qed


subsection \<open>All-day events\<close>

lemma calculateDuration_not_all_day: "calculateDuration rt start end' \<noteq> ''All day''"
proof
  assume eq: "calculateDuration rt start end' = ''All day''"
  have hours: "last (string_of_int n @ '' hour'' @ plural n) \<noteq> CHR ''y''" for n
    by (simp add: plural_def)
  have "last (calculateDuration rt start end') \<noteq> CHR ''y''"
    using hours
    by (auto simp: calculateDuration_def Let_def simp del: last_append split: option.splits)
  with eq show False by simp
qed

lemma calculateDuration_hours:
  "\<exists>n. 0 < n \<and> calculateDuration rt start end'
         = string_of_int n @ (if n = 1 then '' hour'' else '' hours'')"
proof -
  define hours where "hours s \<longleftrightarrow>
    (\<exists>n. 0 < n \<and> s = string_of_int n @ (if n = 1 then '' hour'' else '' hours''))" for s
  have one: "hours ''1 hour''"
    unfolding hours_def by (rule exI [of _ 1]) (simp add: string_of_int_def digit_char_def)
  have more: "hours (string_of_int m @ '' hour'' @ plural m)" if "0 < m" for m
    unfolding hours_def using that by (intro exI [of _ m]) (simp add: plural_def)
  have "hours (calculateDuration rt start end')"
    using one more
    by (simp add: calculateDuration_def Let_def split: option.splits)
  then show ?thesis by (simp only: hours_def)
qed

text \<open>
  Claim C5, as the code has it. For a block with a summary whose start is the line
  \<open>DTSTART;VALUE=DATE:20250615\<close>, the parser of \<open>server-backup.ts\<close> emits an event
  with time \<open>All day\<close> and duration \<open>All day\<close>. The parser of \<open>server.ts\<close> keeps no
  all-day flag: its event has time \<open>00:00\<close> and a duration that is a positive number
  of hours, \<open>1 hour\<close> or \<open>N hours\<close>, and so never \<open>All day\<close>.
\<close>

theorem all_day_block:
  assumes "split_chr CHR 0x0A icsData = pre @ [b] @ body @ [e] @ post"
    and "is_begin b" and "is_end e"
    and "\<forall>l \<in> set body. \<not> is_begin l \<and> \<not> is_end l"
    and "truthy (last_value [''SUMMARY''] body)"
    and "last_value [''DTSTART'', ''DTSTART;VALUE=DATE''] body = Some ''20250615''"
    and "last_key [''DTSTART'', ''DTSTART;VALUE=DATE''] body = Some ''DTSTART;VALUE=DATE''"
  shows
   "(\<exists>ev. parseICSData_backup rt icsData src =
            events_of_backup rt src 0 pre @ [ev]
            @ events_of_backup rt src (length pre + length body + 2) post
          \<and> time ev = ''All day'' \<and> duration ev = ''All day'' \<and> isAllDay ev)
    \<and> (\<exists>ev. parseICSData rt icsData src =
            events_of rt src 0 pre @ [ev] @ events_of rt src (length pre + length body + 2) post
          \<and> time ev = ''00:00''
          \<and> (\<exists>n. 0 < n \<and> duration ev = string_of_int n @ (if n = 1 then '' hour'' else '' hours''))
          \<and> duration ev \<noteq> ''All day'')"
proof (intro conjI)
  have em: "emits body"
    using assms(5,6) by (simp add: emits_def truthy_def)
  let ?k = "Suc (length pre + length body)"
  let ?ev = "make_event_backup rt src ?k (block_record_backup body)"
  have all_day: "all_day (block_record_backup body)"
    using assms(7) by (simp add: all_day_def block_record_backup_def value_type_def startsWith_def)
  have "parseICSData_backup rt icsData src =
          events_of_backup rt src 0 pre @ [?ev]
          @ events_of_backup rt src (length pre + length body + 2) post"
    using parse_block_backup [OF assms(2,3,4), of rt src pre post] assms(1) em
    by (simp add: parseICSData_backup_def events_of_backup_def)
  moreover have "time ?ev = ''All day''" "isAllDay ?ev"
    using all_day by (simp_all add: make_event_backup_def)
  moreover have "duration ?ev = ''All day''"
    using all_day
    by (simp add: make_event_backup_def calculateDuration_backup_def split: option.splits)
  ultimately show "\<exists>ev. parseICSData_backup rt icsData src =
            events_of_backup rt src 0 pre @ [ev]
            @ events_of_backup rt src (length pre + length body + 2) post
          \<and> time ev = ''All day'' \<and> duration ev = ''All day'' \<and> isAllDay ev"
    by blast
  let ?ev' = "make_event rt src ?k (block_record body)"
  have "parseICSData rt icsData src =
          events_of rt src 0 pre @ [?ev'] @ events_of rt src (length pre + length body + 2) post"
    using parse_block [OF assms(2,3,4), of rt src pre post] assms(1) em
    by (simp add: parseICSData_def events_of_def)
  moreover have "time ?ev' = ''00:00''"
    using assms(6)
    by (simp add: make_event_def block_record_def formatICSTime_def startsWith_def)
  moreover have "duration ?ev' \<noteq> ''All day''"
    by (simp add: make_event_def calculateDuration_not_all_day)
  moreover have "\<exists>n. 0 < n
      \<and> duration ?ev' = string_of_int n @ (if n = 1 then '' hour'' else '' hours'')"
    by (simp add: make_event_def calculateDuration_hours)
  ultimately show "\<exists>ev. parseICSData rt icsData src =
            events_of rt src 0 pre @ [ev] @ events_of rt src (length pre + length body + 2) post
          \<and> time ev = ''00:00''
          \<and> (\<exists>n. 0 < n \<and> duration ev = string_of_int n @ (if n = 1 then '' hour'' else '' hours''))
          \<and> duration ev \<noteq> ''All day''"
    by blast
qed

text \<open>
  Claim C5 as stated fails on \<open>server.ts\<close>: the all-day block comes out with time
  \<open>00:00\<close> and duration \<open>1 hour\<close>.
\<close>

theorem all_day_counterexample:
  "parseICSData (fixed_runtime 1000 ''2025-11-02T10:00:00.000Z'' 0)
     ''BEGIN:VEVENT\<newline>SUMMARY:Holiday\<newline>DTSTART;VALUE=DATE:20250615\<newline>END:VEVENT'' ''Feed''
   = [\<lparr>event_id = ''1000'', title = ''Holiday'', date = ''2025-06-15'', time = ''00:00'',
        duration = ''1 hour'', description = [], location = [], priority = ''medium'',
        source = ''Feed''\<rparr>]"
  by (simp add: parseICSData_def parse_line_def set_property_def empty_event_def eval_parse eval_date)

theorem all_day_block_witness:
  "split_chr CHR 0x0A ''BEGIN:VEVENT\<newline>SUMMARY:Holiday\<newline>DTSTART;VALUE=DATE:20250615\<newline>END:VEVENT''
     = [] @ [''BEGIN:VEVENT''] @ [''SUMMARY:Holiday'', ''DTSTART;VALUE=DATE:20250615'']
       @ [''END:VEVENT''] @ []
   \<and> is_begin ''BEGIN:VEVENT'' \<and> is_end ''END:VEVENT''
   \<and> list_all (\<lambda>l. \<not> is_begin l \<and> \<not> is_end l)
        [''SUMMARY:Holiday'', ''DTSTART;VALUE=DATE:20250615'']
   \<and> truthy (last_value [''SUMMARY''] [''SUMMARY:Holiday'', ''DTSTART;VALUE=DATE:20250615''])
   \<and> last_value [''DTSTART'', ''DTSTART;VALUE=DATE'']
        [''SUMMARY:Holiday'', ''DTSTART;VALUE=DATE:20250615''] = Some ''20250615''
   \<and> last_key [''DTSTART'', ''DTSTART;VALUE=DATE'']
        [''SUMMARY:Holiday'', ''DTSTART;VALUE=DATE:20250615''] = Some ''DTSTART;VALUE=DATE''
   \<and> (\<exists>ev. parseICSData_backup (fixed_runtime 1000 ''2025-11-02T10:00:00.000Z'' 0)
          ''BEGIN:VEVENT\<newline>SUMMARY:Holiday\<newline>DTSTART;VALUE=DATE:20250615\<newline>END:VEVENT'' ''Feed''
          = [ev] \<and> time ev = ''All day'' \<and> duration ev = ''All day'' \<and> isAllDay ev)
   \<and> (\<exists>ev. parseICSData (fixed_runtime 1000 ''2025-11-02T10:00:00.000Z'' 0)
          ''BEGIN:VEVENT\<newline>SUMMARY:Holiday\<newline>DTSTART;VALUE=DATE:20250615\<newline>END:VEVENT'' ''Feed''
          = [ev] \<and> time ev = ''00:00''
          \<and> (\<exists>n. 0 < n \<and> duration ev = string_of_int n @ (if n = 1 then '' hour'' else '' hours'')))"
proof -
  let ?body = "[''SUMMARY:Holiday'', ''DTSTART;VALUE=DATE:20250615'']"
  let ?text = "''BEGIN:VEVENT\<newline>SUMMARY:Holiday\<newline>DTSTART;VALUE=DATE:20250615\<newline>END:VEVENT''"
  have 1: "split_chr CHR 0x0A ?text = [] @ [''BEGIN:VEVENT''] @ ?body @ [''END:VEVENT''] @ []"
    by simp
  have 2: "is_begin ''BEGIN:VEVENT''" and 3: "is_end ''END:VEVENT''"
    by (simp_all add: eval_parse)
  have 4: "\<forall>l \<in> set ?body. \<not> is_begin l \<and> \<not> is_end l"
    by (simp add: eval_parse)
  have 5: "truthy (last_value [''SUMMARY''] ?body)"
    by (simp add: eval_parse)
  have 6: "last_value [''DTSTART'', ''DTSTART;VALUE=DATE''] ?body = Some ''20250615''"
    by (simp add: eval_parse)
  have 7: "last_key [''DTSTART'', ''DTSTART;VALUE=DATE''] ?body = Some ''DTSTART;VALUE=DATE''"
    by (simp add: eval_parse)
  note inst = all_day_block [OF 1 2 3 4 5 6 7,
      of "fixed_runtime 1000 ''2025-11-02T10:00:00.000Z'' 0" "''Feed''"]
  from inst
  have backup: "\<exists>ev. parseICSData_backup (fixed_runtime 1000 ''2025-11-02T10:00:00.000Z'' 0) ?text ''Feed''
          = [ev] \<and> time ev = ''All day'' \<and> duration ev = ''All day'' \<and> isAllDay ev"
    by (simp add: events_of_backup_def)
  from inst
  have "\<exists>ev. parseICSData (fixed_runtime 1000 ''2025-11-02T10:00:00.000Z'' 0) ?text ''Feed''
          = [ev] \<and> time ev = ''00:00''
          \<and> (\<exists>n. 0 < n \<and> duration ev = string_of_int n @ (if n = 1 then '' hour'' else '' hours''))"
    by (auto simp: events_of_def split del: if_split)
  with backup 1 2 3 4 5 6 7 show ?thesis by (simp only: list_all_iff; blast)
qed

subsection \<open>The aggregator\<close>

lemma not_after_by_date:
  assumes "Date_parse rt (date x) \<noteq> None" "Date_parse rt (date y) \<noteq> None"
  shows "not_after (by_date rt x y) = (date_key rt x \<le> date_key rt y)"
  using assms by (auto simp: not_after_def by_date_def date_key_def)

lemma insert_by_insort:
  assumes "Date_parse rt (date x) \<noteq> None" "\<forall>y \<in> set ys. Date_parse rt (date y) \<noteq> None"
  shows "insert_by (by_date rt) x ys = insort_key (date_key rt) x ys"
  using assms by (induction ys) (simp_all add: not_after_by_date)

lemma insertion_sort_sort_key:
  assumes "\<forall>x \<in> set xs. Date_parse rt (date x) \<noteq> None"
  shows "insertion_sort (by_date rt) xs = sort_key (date_key rt) xs"
  using assms
proof (induction xs)
  case Nil
  show ?case by (simp add: insertion_sort_def)
next
  case (Cons x xs)
  then have IH: "foldr (insert_by (by_date rt)) xs [] = sort_key (date_key rt) xs"
    by (simp add: insertion_sort_def)
  have "insert_by (by_date rt) x (sort_key (date_key rt) xs)
          = insort_key (date_key rt) x (sort_key (date_key rt) xs)"
    using Cons.prems by (intro insert_by_insort) simp_all
  with IH show ?case by (simp add: insertion_sort_def sort_key_def)
qed

lemma Array_sort_sort_key:
  assumes "\<forall>x \<in> set xs. Date_parse rt (date x) \<noteq> None"
  shows "Array_sort engine rt xs = sort_key (date_key rt) xs"
  using assms insertion_sort_sort_key [OF assms]
  by (simp add: Array_sort_def dates_parse_def list_all_iff)

lemma mset_insert_by: "mset (insert_by cmp x ys) = add_mset x (mset ys)"
  by (induction ys) auto

lemma mset_insertion_sort: "mset (insertion_sort cmp xs) = mset xs"
  by (induction xs) (simp_all add: insertion_sort_def mset_insert_by)

lemma mset_Array_sort: "mset (Array_sort engine rt xs) = mset xs"
  by (simp add: Array_sort_def rearranged_def mset_insertion_sort)

lemma set_Array_sort: "set (Array_sort engine rt xs) = set xs"
  using mset_Array_sort [of engine rt xs] by (rule mset_eq_setD)

lemma length_Array_sort: "length (Array_sort engine rt xs) = length xs"
  using mset_Array_sort [of engine rt xs] by (rule mset_eq_length)

lemma aggregate_events:
  "events (aggregate parse engine ev rt clock fetch store) =
     Array_sort engine rt (filter (not_actioned store) (collect parse rt clock fetch 0 (calendarSources ev) []))"
  by (simp add: aggregate_def Let_def)

lemma surviving_filter: "surviving store all = filter (not_actioned store) all"
  unfolding surviving_def by (rule filter_cong) (simp_all add: not_actioned_def set_has_def)

lemma date_key_same_date: "date a = date b \<Longrightarrow> date_key rt a = date_key rt b"
  by (simp add: date_key_def)

lemma sort_key_keeps_date_order:
  "filter (\<lambda>e. date e = d) (sort_key (date_key rt) xs) = filter (\<lambda>e. date e = d) xs"
proof -
  define k where "k = (case Date_parse rt d of Some t \<Rightarrow> t | None \<Rightarrow> 0)"
  have narrow: "filter (\<lambda>e. date e = d) ys = filter (\<lambda>e. date e = d) (filter (\<lambda>e. date_key rt e = k) ys)"
    for ys :: "'a calendar_event_scheme list"
    by (induction ys) (auto simp: date_key_def k_def)
  have "filter (\<lambda>e. date e = d) (sort_key (date_key rt) xs)
          = filter (\<lambda>e. date e = d) (filter (\<lambda>e. date_key rt e = k) (sort_key (date_key rt) xs))"
    by (rule narrow)
  also have "\<dots> = filter (\<lambda>e. date e = d) (filter (\<lambda>e. date_key rt e = k) xs)"
    by (simp only: sort_key_stable)
  also have "\<dots> = filter (\<lambda>e. date e = d) xs"
    by (rule narrow [symmetric])
  finally show ?thesis .
qed

text \<open>
  Claim C2, as the code has it. The events array of the response holds exactly the events of the
  accumulated list whose id is in neither the completed nor the dismissed set, each as
  often as the list has it. Whenever the date of each of these events parses, the array
  is that list sorted stably on the instant of the date field: it is ascending in that
  instant, and the events of any one date keep the order in which they were fetched. This
  holds for both servers and for every engine.
\<close>

theorem calendar_events_sorted:
  "mset (events (handleAppleCalendar engine ev rt clock fetch store))
     = mset (surviving store (allEvents ev rt clock fetch))
   \<and> ((\<forall>e \<in> set (surviving store (allEvents ev rt clock fetch)).
          Date_parse rt (date e) \<noteq> None) \<longrightarrow>
      events (handleAppleCalendar engine ev rt clock fetch store)
        = sort_key (date_key rt) (surviving store (allEvents ev rt clock fetch))
      \<and> sorted (map (date_key rt) (events (handleAppleCalendar engine ev rt clock fetch store)))
      \<and> filter (\<lambda>e. date e = d) (events (handleAppleCalendar engine ev rt clock fetch store))
          = filter (\<lambda>e. date e = d) (surviving store (allEvents ev rt clock fetch)))
   \<and> mset (events (handleAppleCalendar_backup engine' ev rt clock fetch store))
     = mset (surviving store (allEvents_backup ev rt clock fetch))
   \<and> ((\<forall>e \<in> set (surviving store (allEvents_backup ev rt clock fetch)).
          Date_parse rt (date e) \<noteq> None) \<longrightarrow>
      events (handleAppleCalendar_backup engine' ev rt clock fetch store)
        = sort_key (date_key rt) (surviving store (allEvents_backup ev rt clock fetch))
      \<and> sorted (map (date_key rt) (events (handleAppleCalendar_backup engine' ev rt clock fetch store)))
      \<and> filter (\<lambda>e. date e = d) (events (handleAppleCalendar_backup engine' ev rt clock fetch store))
          = filter (\<lambda>e. date e = d) (surviving store (allEvents_backup ev rt clock fetch)))"
proof (intro conjI impI)
  show "mset (events (handleAppleCalendar engine ev rt clock fetch store))
     = mset (surviving store (allEvents ev rt clock fetch))"
    by (simp only: handleAppleCalendar_def aggregate_events allEvents_def surviving_filter
          mset_Array_sort)
next
  show "mset (events (handleAppleCalendar_backup engine' ev rt clock fetch store))
     = mset (surviving store (allEvents_backup ev rt clock fetch))"
    by (simp only: handleAppleCalendar_backup_def aggregate_events allEvents_backup_def
          surviving_filter mset_Array_sort)
next
  assume valid: "\<forall>e \<in> set (surviving store (allEvents ev rt clock fetch)).
        Date_parse rt (date e) \<noteq> None"
  show eq: "events (handleAppleCalendar engine ev rt clock fetch store)
        = sort_key (date_key rt) (surviving store (allEvents ev rt clock fetch))"
    using Array_sort_sort_key [OF valid]
    by (simp only: handleAppleCalendar_def aggregate_events allEvents_def surviving_filter)
  show "sorted (map (date_key rt) (events (handleAppleCalendar engine ev rt clock fetch store)))"
    by (simp only: eq sorted_sort_key)
  show "filter (\<lambda>e. date e = d) (events (handleAppleCalendar engine ev rt clock fetch store))
          = filter (\<lambda>e. date e = d) (surviving store (allEvents ev rt clock fetch))"
    by (simp only: eq sort_key_keeps_date_order)
next
  assume valid: "\<forall>e \<in> set (surviving store (allEvents_backup ev rt clock fetch)).
        Date_parse rt (date e) \<noteq> None"
  show eq: "events (handleAppleCalendar_backup engine' ev rt clock fetch store)
        = sort_key (date_key rt) (surviving store (allEvents_backup ev rt clock fetch))"
    using Array_sort_sort_key [OF valid]
    by (simp only: handleAppleCalendar_backup_def aggregate_events allEvents_backup_def
          surviving_filter)
  show "sorted (map (date_key rt) (events (handleAppleCalendar_backup engine' ev rt clock fetch store)))"
    by (simp only: eq sorted_sort_key)
  show "filter (\<lambda>e. date e = d) (events (handleAppleCalendar_backup engine' ev rt clock fetch store))
          = filter (\<lambda>e. date e = d) (surviving store (allEvents_backup ev rt clock fetch))"
    by (simp only: eq sort_key_keeps_date_order)
qed

text \<open>The example deployment, evaluated.\<close>

lemma example_parse:
  "parseICSData (example_runtime\<lparr>Date_now := c\<rparr>) example_feed ''Todoist'' =
     [example_event ''b'' ''B'' ''2025-06-16'' ''09:00'',
      example_event ''a1'' ''A1'' ''2025-06-15'' ''10:00'',
      example_event ''a2'' ''A2'' ''2025-06-15'' ''09:00'']"
  by (simp add: parseICSData_def example_feed_def example_runtime_def example_event_def
        parse_line_def set_property_def empty_event_def eval_parse eval_date)

lemma example_allEvents:
  "allEvents example_env example_runtime clock example_fetch =
     [example_event ''b'' ''B'' ''2025-06-16'' ''09:00'',
      example_event ''a1'' ''A1'' ''2025-06-15'' ''10:00'',
      example_event ''a2'' ''A2'' ''2025-06-15'' ''09:00'']"
  by (simp add: allEvents_def calendarSources_def example_env_def not_configured_def
        load_source_def example_fetch_def startsWith_def example_parse)

lemma example_dates:
  "Date_parse example_runtime ''2025-06-15'' = Some 1749945600000"
  "Date_parse example_runtime ''2025-06-16'' = Some 1750032000000"
  by (simp_all add: example_runtime_def eval_date)

theorem calendar_events_sorted_witness:
  "list_all (\<lambda>e. Date_parse example_runtime (date e) \<noteq> None)
     (surviving \<lparr>completedEvents = [JStr ''a2''], dismissedEvents = []\<rparr>
        (allEvents example_env example_runtime (\<lambda>_ _. 1000) example_fetch))
   \<and> events (handleAppleCalendar insertion_sort example_env example_runtime (\<lambda>_ _. 1000)
        example_fetch \<lparr>completedEvents = [], dismissedEvents = []\<rparr>)
     = [example_event ''a1'' ''A1'' ''2025-06-15'' ''10:00'',
        example_event ''a2'' ''A2'' ''2025-06-15'' ''09:00'',
        example_event ''b'' ''B'' ''2025-06-16'' ''09:00'']
   \<and> events (handleAppleCalendar insertion_sort example_env example_runtime (\<lambda>_ _. 1000)
        example_fetch \<lparr>completedEvents = [JStr ''a2''], dismissedEvents = []\<rparr>)
     = [example_event ''a1'' ''A1'' ''2025-06-15'' ''10:00'',
        example_event ''b'' ''B'' ''2025-06-16'' ''09:00'']"
proof -
  let ?store = "\<lparr>completedEvents = [], dismissedEvents = []\<rparr>"
  let ?done = "\<lparr>completedEvents = [JStr ''a2''], dismissedEvents = []\<rparr>"
  let ?all = "allEvents example_env example_runtime (\<lambda>_ _. 1000) example_fetch"
  have kept: "surviving ?store ?all =
     [example_event ''b'' ''B'' ''2025-06-16'' ''09:00'',
      example_event ''a1'' ''A1'' ''2025-06-15'' ''10:00'',
      example_event ''a2'' ''A2'' ''2025-06-15'' ''09:00'']"
    by (simp add: example_allEvents surviving_def)
  have kept': "surviving ?done ?all =
     [example_event ''b'' ''B'' ''2025-06-16'' ''09:00'',
      example_event ''a1'' ''A1'' ''2025-06-15'' ''10:00'']"
    by (simp add: example_allEvents surviving_def example_event_def)
  have valid: "\<forall>e \<in> set (surviving ?store ?all). Date_parse example_runtime (date e) \<noteq> None"
    unfolding kept by (simp add: example_event_def example_dates)
  have valid': "\<forall>e \<in> set (surviving ?done ?all). Date_parse example_runtime (date e) \<noteq> None"
    unfolding kept' by (simp add: example_event_def example_dates)
  have "events (handleAppleCalendar insertion_sort example_env example_runtime (\<lambda>_ _. 1000)
          example_fetch ?store)
     = sort_key (date_key example_runtime) (surviving ?store ?all)"
    using calendar_events_sorted [of insertion_sort example_env example_runtime "\<lambda>_ _. 1000"
        example_fetch ?store]
      valid by blast
  also have "\<dots> = [example_event ''a1'' ''A1'' ''2025-06-15'' ''10:00'',
        example_event ''a2'' ''A2'' ''2025-06-15'' ''09:00'',
        example_event ''b'' ''B'' ''2025-06-16'' ''09:00'']"
    unfolding kept by (simp add: sort_key_def date_key_def example_event_def example_dates)
  finally have first: "events (handleAppleCalendar insertion_sort example_env example_runtime
      (\<lambda>_ _. 1000) example_fetch ?store)
     = [example_event ''a1'' ''A1'' ''2025-06-15'' ''10:00'',
        example_event ''a2'' ''A2'' ''2025-06-15'' ''09:00'',
        example_event ''b'' ''B'' ''2025-06-16'' ''09:00'']" .
  have "events (handleAppleCalendar insertion_sort example_env example_runtime (\<lambda>_ _. 1000)
          example_fetch ?done)
     = sort_key (date_key example_runtime) (surviving ?done ?all)"
    using calendar_events_sorted [of insertion_sort example_env example_runtime "\<lambda>_ _. 1000"
        example_fetch ?done]
      valid' by blast
  also have "\<dots> = [example_event ''a1'' ''A1'' ''2025-06-15'' ''10:00'',
        example_event ''b'' ''B'' ''2025-06-16'' ''09:00'']"
    unfolding kept' by (simp add: sort_key_def date_key_def example_event_def example_dates)
  finally have second: "events (handleAppleCalendar insertion_sort example_env example_runtime
      (\<lambda>_ _. 1000) example_fetch ?done)
     = [example_event ''a1'' ''A1'' ''2025-06-15'' ''10:00'',
        example_event ''b'' ''B'' ''2025-06-16'' ''09:00'']" .
  from first second valid' show ?thesis by (simp only: list_all_iff; blast)
qed

lemma misdated_parse:
  "parseICSData (example_runtime\<lparr>Date_now := c\<rparr>) misdated_feed ''Todoist'' =
     [example_event ''b'' ''B'' ''2025-06-16'' ''09:00'',
      example_event ''x1'' ''X1'' ''ABCD-EF-GH'' ''00:00'',
      example_event ''x2'' ''X2'' ''ABCD-EF-GH'' ''00:00'',
      example_event ''a'' ''A'' ''2025-06-15'' ''09:00'']"
  by (simp add: parseICSData_def misdated_feed_def example_runtime_def example_event_def
        parse_line_def set_property_def empty_event_def eval_parse eval_date)

lemma misdated_allEvents:
  "allEvents example_env example_runtime clock misdated_fetch =
     [example_event ''b'' ''B'' ''2025-06-16'' ''09:00'',
      example_event ''x1'' ''X1'' ''ABCD-EF-GH'' ''00:00'',
      example_event ''x2'' ''X2'' ''ABCD-EF-GH'' ''00:00'',
      example_event ''a'' ''A'' ''2025-06-15'' ''09:00'']"
  by (simp add: allEvents_def calendarSources_def example_env_def not_configured_def
        load_source_def misdated_fetch_def startsWith_def misdated_parse)

lemma misdated_date: "Date_parse example_runtime ''ABCD-EF-GH'' = None"
  by (simp add: example_runtime_def eval_date)

text \<open>
  Claim C2 as stated fails on a feed with dates that do not parse. The feed holds an event
  of 16 June, two events whose date is \<open>ABCD-EF-GH\<close>, and an event of 15 June. Every
  comparison with one of the two is \<open>NaN\<close>, and a sort by insertion, which here is the
  engine, never compares the first event with the last: the event of 16 June stays before
  the event of 15 June. A binary insertion and a merge of runs meet the same comparisons
  and leave the array as it is, too.
\<close>

theorem calendar_events_unsorted_counterexample:
  "events (handleAppleCalendar insertion_sort example_env example_runtime (\<lambda>_ _. 1000)
      misdated_fetch \<lparr>completedEvents = [], dismissedEvents = []\<rparr>)
     = [example_event ''b'' ''B'' ''2025-06-16'' ''09:00'',
        example_event ''x1'' ''X1'' ''ABCD-EF-GH'' ''00:00'',
        example_event ''x2'' ''X2'' ''ABCD-EF-GH'' ''00:00'',
        example_event ''a'' ''A'' ''2025-06-15'' ''09:00'']
   \<and> Date_parse example_runtime ''2025-06-16'' = Some 1750032000000
   \<and> Date_parse example_runtime ''ABCD-EF-GH'' = None
   \<and> Date_parse example_runtime ''2025-06-15'' = Some 1749945600000"
proof -
  let ?store = "\<lparr>completedEvents = [], dismissedEvents = []\<rparr>"
  let ?all = "[example_event ''b'' ''B'' ''2025-06-16'' ''09:00'',
        example_event ''x1'' ''X1'' ''ABCD-EF-GH'' ''00:00'',
        example_event ''x2'' ''X2'' ''ABCD-EF-GH'' ''00:00'',
        example_event ''a'' ''A'' ''2025-06-15'' ''09:00'']"
  have kept: "filter (not_actioned ?store) ?all = ?all"
    by (simp add: not_actioned_def set_has_def)
  have "events (handleAppleCalendar insertion_sort example_env example_runtime (\<lambda>_ _. 1000)
          misdated_fetch ?store)
          = Array_sort insertion_sort example_runtime (filter (not_actioned ?store) ?all)"
    by (simp only: handleAppleCalendar_def aggregate_events allEvents_def [symmetric]
          misdated_allEvents)
  also have "\<dots> = ?all"
    unfolding kept
    by (simp add: Array_sort_def dates_parse_def rearranged_def insertion_sort_def by_date_def
          not_after_def example_event_def example_dates misdated_date)
  finally show ?thesis
    by (simp add: example_dates misdated_date)
qed

lemma collect_three:
  "collect parse rt clock fetch 0 (calendarSources ev) [] =
     contribution parse rt (clock 0) (fetch 0 (calendar_url (TODOIST_CALENDAR_URL ev)))
       (''Todoist'', TODOIST_CALENDAR_URL ev)
     @ contribution parse rt (clock 1) (fetch 1 (calendar_url (APPLE_CALENDAR_URL ev)))
       (''Apple Calendar'', APPLE_CALENDAR_URL ev)
     @ contribution parse rt (clock 2) (fetch 2 (calendar_url (UK_HOLIDAYS_CALENDAR_URL ev)))
       (''UK Holidays'', UK_HOLIDAYS_CALENDAR_URL ev)"
  by (simp add: calendarSources_def contribution_def load_source_def calendar_url_def
        numeral_2_eq_2 split: ics_fetch.splits)

lemma aggregate_sources:
  "sources (aggregate parse engine ev rt clock fetch store) =
     [(''Todoist'', \<not> not_configured (TODOIST_CALENDAR_URL ev)),
      (''Apple Calendar'', \<not> not_configured (APPLE_CALENDAR_URL ev)),
      (''UK Holidays'', \<not> not_configured (UK_HOLIDAYS_CALENDAR_URL ev))]"
  by (simp add: aggregate_def Let_def calendarSources_def)

lemma aggregate_event_set:
  "set (events (aggregate parse engine ev rt clock fetch store)) =
     {e \<in> set (collect parse rt clock fetch 0 (calendarSources ev) []). not_actioned store e}"
  by (simp add: aggregate_events set_Array_sort)

lemma aggregate_counts:
  "cal_status (aggregate parse engine ev rt clock fetch store) = 200"
  "total_events (aggregate parse engine ev rt clock fetch store)
     = length (collect parse rt clock fetch 0 (calendarSources ev) [])"
  "filtered_events (aggregate parse engine ev rt clock fetch store)
     = length (filter (not_actioned store) (collect parse rt clock fetch 0 (calendarSources ev) []))"
  by (simp_all add: aggregate_def Let_def length_Array_sort)

lemma contribution_shown:
  "i < 3 \<and> not_actioned store x
        \<and> x \<in> set (contribution parse rt (clock i)
                     (fetch i (calendar_url (snd (calendarSources ev ! i)))) (calendarSources ev ! i))
        \<longrightarrow> x \<in> set (events (aggregate parse engine ev rt clock fetch store))"
proof
  assume h: "i < 3 \<and> not_actioned store x
      \<and> x \<in> set (contribution parse rt (clock i)
                   (fetch i (calendar_url (snd (calendarSources ev ! i)))) (calendarSources ev ! i))"
  have nth: "calendarSources ev ! 0 = (''Todoist'', TODOIST_CALENDAR_URL ev)"
    "calendarSources ev ! 1 = (''Apple Calendar'', APPLE_CALENDAR_URL ev)"
    "calendarSources ev ! 2 = (''UK Holidays'', UK_HOLIDAYS_CALENDAR_URL ev)"
    by (simp_all add: calendarSources_def)
  from h have "i = 0 \<or> i = 1 \<or> i = 2" by arith
  with h nth have "x \<in> set (collect parse rt clock fetch 0 (calendarSources ev) [])"
    unfolding collect_three by auto
  with h show "x \<in> set (events (aggregate parse engine ev rt clock fetch store))"
    unfolding aggregate_event_set by simp
qed

text \<open>
  Claim C3. In both servers \<open>allEvents\<close> is the concatenation of what the three sources
  contribute, and a source contributes from the outcome of its own request only: nothing
  when its fetch throws, its status is not OK or its text cannot be read. The answer has
  status 200 whatever the outcomes, counts every collected event, shows every collected
  event that is neither completed nor dismissed, and lists the three sources with their
  configuration status, which does not depend on the network.
\<close>

theorem source_failure_isolated:
  "allEvents ev rt clock fetch =
     contribution parseICSData rt (clock 0) (fetch 0 (calendar_url (TODOIST_CALENDAR_URL ev)))
       (''Todoist'', TODOIST_CALENDAR_URL ev)
     @ contribution parseICSData rt (clock 1) (fetch 1 (calendar_url (APPLE_CALENDAR_URL ev)))
       (''Apple Calendar'', APPLE_CALENDAR_URL ev)
     @ contribution parseICSData rt (clock 2) (fetch 2 (calendar_url (UK_HOLIDAYS_CALENDAR_URL ev)))
       (''UK Holidays'', UK_HOLIDAYS_CALENDAR_URL ev)
   \<and> allEvents_backup ev rt clock fetch =
     contribution parseICSData_backup rt (clock 0) (fetch 0 (calendar_url (TODOIST_CALENDAR_URL ev)))
       (''Todoist'', TODOIST_CALENDAR_URL ev)
     @ contribution parseICSData_backup rt (clock 1) (fetch 1 (calendar_url (APPLE_CALENDAR_URL ev)))
       (''Apple Calendar'', APPLE_CALENDAR_URL ev)
     @ contribution parseICSData_backup rt (clock 2)
         (fetch 2 (calendar_url (UK_HOLIDAYS_CALENDAR_URL ev)))
       (''UK Holidays'', UK_HOLIDAYS_CALENDAR_URL ev)
   \<and> contribution parse rt c FetchThrows src = []
   \<and> contribution parse rt c NotOk src = []
   \<and> contribution parse rt c TextThrows src = []
   \<and> cal_status (handleAppleCalendar engine ev rt clock fetch store) = 200
   \<and> cal_status (handleAppleCalendar_backup engine' ev rt clock fetch store) = 200
   \<and> total_events (handleAppleCalendar engine ev rt clock fetch store)
       = length (allEvents ev rt clock fetch)
   \<and> total_events (handleAppleCalendar_backup engine' ev rt clock fetch store)
       = length (allEvents_backup ev rt clock fetch)
   \<and> set (events (handleAppleCalendar engine ev rt clock fetch store))
       = {e \<in> set (allEvents ev rt clock fetch). not_actioned store e}
   \<and> set (events (handleAppleCalendar_backup engine' ev rt clock fetch store))
       = {e \<in> set (allEvents_backup ev rt clock fetch). not_actioned store e}
   \<and> sources (handleAppleCalendar engine ev rt clock fetch store) =
       [(''Todoist'', \<not> not_configured (TODOIST_CALENDAR_URL ev)),
        (''Apple Calendar'', \<not> not_configured (APPLE_CALENDAR_URL ev)),
        (''UK Holidays'', \<not> not_configured (UK_HOLIDAYS_CALENDAR_URL ev))]
   \<and> sources (handleAppleCalendar_backup engine' ev rt clock fetch store) =
       [(''Todoist'', \<not> not_configured (TODOIST_CALENDAR_URL ev)),
        (''Apple Calendar'', \<not> not_configured (APPLE_CALENDAR_URL ev)),
        (''UK Holidays'', \<not> not_configured (UK_HOLIDAYS_CALENDAR_URL ev))]
   \<and> (i < 3 \<and> not_actioned store e
        \<and> e \<in> set (contribution parseICSData rt (clock i)
                     (fetch i (calendar_url (snd (calendarSources ev ! i)))) (calendarSources ev ! i))
        \<longrightarrow> e \<in> set (events (handleAppleCalendar engine ev rt clock fetch store)))
   \<and> (i < 3 \<and> not_actioned store e'
        \<and> e' \<in> set (contribution parseICSData_backup rt (clock i)
                     (fetch i (calendar_url (snd (calendarSources ev ! i)))) (calendarSources ev ! i))
        \<longrightarrow> e' \<in> set (events (handleAppleCalendar_backup engine' ev rt clock fetch store)))"
proof -
  show ?thesis
    using contribution_shown [where parse = parseICSData and x = e]
      contribution_shown [where parse = parseICSData_backup and x = e']
    by (simp add: allEvents_def allEvents_backup_def collect_three contribution_def
        handleAppleCalendar_def handleAppleCalendar_backup_def aggregate_sources
        aggregate_event_set aggregate_counts)
qed

theorem source_failure_isolated_witness:
  "example_fetch 2 (calendar_url (UK_HOLIDAYS_CALENDAR_URL example_env)) = FetchThrows
   \<and> \<not> not_configured (UK_HOLIDAYS_CALENDAR_URL example_env)
   \<and> (0::nat) < 3
   \<and> not_actioned \<lparr>completedEvents = [], dismissedEvents = []\<rparr>
         (example_event ''b'' ''B'' ''2025-06-16'' ''09:00'')
   \<and> example_event ''b'' ''B'' ''2025-06-16'' ''09:00''
       \<in> set (contribution parseICSData example_runtime (\<lambda>_. 1000)
                  (example_fetch 0 (calendar_url (snd (calendarSources example_env ! 0))))
                  (calendarSources example_env ! 0))
   \<and> example_event ''b'' ''B'' ''2025-06-16'' ''09:00''
       \<in> set (events (handleAppleCalendar insertion_sort example_env example_runtime (\<lambda>_ _. 1000) example_fetch
                  \<lparr>completedEvents = [], dismissedEvents = []\<rparr>))
   \<and> sources (handleAppleCalendar insertion_sort example_env example_runtime (\<lambda>_ _. 1000) example_fetch
                  \<lparr>completedEvents = [], dismissedEvents = []\<rparr>)
       = [(''Todoist'', True), (''Apple Calendar'', False), (''UK Holidays'', True)]"
proof -
  let ?store = "\<lparr>completedEvents = [], dismissedEvents = []\<rparr>"
  let ?b = "example_event ''b'' ''B'' ''2025-06-16'' ''09:00''"
  note inst = source_failure_isolated [of example_env example_runtime "\<lambda>_ _. 1000" example_fetch
      parseICSData "\<lambda>_. 1000" "(''UK Holidays'', UK_HOLIDAYS_CALENDAR_URL example_env)"
      insertion_sort ?store insertion_sort 0 ?b
      "\<lparr>event_id = [], title = [], date = [], time = [], duration = [], description = [],
        location = [], priority = [], source = [], isAllDay = False\<rparr>"]
  have throws: "example_fetch 2 (calendar_url (UK_HOLIDAYS_CALENDAR_URL example_env)) = FetchThrows"
    by (simp add: example_fetch_def example_env_def calendar_url_def startsWith_def)
  have configured: "\<not> not_configured (UK_HOLIDAYS_CALENDAR_URL example_env)"
    "\<not> not_configured (TODOIST_CALENDAR_URL example_env)"
    "not_configured (APPLE_CALENDAR_URL example_env)"
    by (simp_all add: example_env_def not_configured_def startsWith_def)
  have free: "not_actioned ?store ?b"
    by (simp add: not_actioned_def set_has_def)
  have "contribution parseICSData example_runtime (\<lambda>_. 1000)
                  (example_fetch 0 (calendar_url (snd (calendarSources example_env ! 0))))
                  (calendarSources example_env ! 0)
        = parseICSData (example_runtime\<lparr>Date_now := \<lambda>_. 1000\<rparr>) example_feed ''Todoist''"
    using configured(2)
    by (simp add: contribution_def calendarSources_def)
       (simp add: example_fetch_def example_env_def calendar_url_def startsWith_def)
  then have mem: "?b \<in> set (contribution parseICSData example_runtime (\<lambda>_. 1000)
                  (example_fetch 0 (calendar_url (snd (calendarSources example_env ! 0))))
                  (calendarSources example_env ! 0))"
    by (simp add: example_parse)
  have "(0::nat) < 3 \<and> not_actioned ?store ?b
        \<and> ?b \<in> set (contribution parseICSData example_runtime (\<lambda>_. 1000)
                  (example_fetch 0 (calendar_url (snd (calendarSources example_env ! 0))))
                  (calendarSources example_env ! 0))
        \<longrightarrow> ?b \<in> set (events (handleAppleCalendar insertion_sort example_env example_runtime (\<lambda>_ _. 1000)
                  example_fetch ?store))"
    using inst by - (elim conjE, assumption)
  with free mem have shown: "?b \<in> set (events (handleAppleCalendar insertion_sort example_env example_runtime
                  (\<lambda>_ _. 1000) example_fetch ?store))"
    by simp
  have "sources (handleAppleCalendar insertion_sort example_env example_runtime (\<lambda>_ _. 1000) example_fetch ?store)
       = [(''Todoist'', \<not> not_configured (TODOIST_CALENDAR_URL example_env)),
          (''Apple Calendar'', \<not> not_configured (APPLE_CALENDAR_URL example_env)),
          (''UK Holidays'', \<not> not_configured (UK_HOLIDAYS_CALENDAR_URL example_env))]"
    using inst by - (elim conjE, assumption)
  then have listed: "sources (handleAppleCalendar insertion_sort example_env example_runtime (\<lambda>_ _. 1000)
        example_fetch ?store)
       = [(''Todoist'', True), (''Apple Calendar'', False), (''UK Holidays'', True)]"
    using configured by simp
  from throws configured(1) free mem shown listed show ?thesis by (intro conjI) simp_all
qed

subsection \<open>The event action handler\<close>

lemma get_prop_JNull: "get_prop name JNull = None"
  by (simp add: get_prop_def)

lemma loggable_log_line:
  assumes "loggable b" "get_prop ''action'' b = Some act" "get_prop ''eventId'' b = Some ev"
  shows "log_line nm act ev (get_prop ''source'' b)
           = Inr (js_to_string act @ '' event: '' @ js_to_string ev @ '' from ''
                  @ (case get_prop ''source'' b of None \<Rightarrow> ''undefined'' | Some s \<Rightarrow> js_to_string s))"
  using assms by (auto simp: loggable_def log_line_def split: option.splits)

lemma not_loggable_log_line:
  assumes "\<not> loggable b" "get_prop ''action'' b = Some act" "get_prop ''eventId'' b = Some ev"
  shows "\<exists>message. log_line nm act ev (get_prop ''source'' b) = Inl message"
  using assms by (auto simp: loggable_def log_line_def split: option.splits)

lemma handleEventAction_null:
  assumes "req_method req = ''POST''" "req_body req = Inr JNull"
  shows "handleEventAction nm store req
           = (server_error ''Failed to process event action'' (nm ''body''), store)"
  using assms by (simp add: handleEventAction_def)

lemma handleEventAction_body:
  assumes "req_method req = ''POST''" "req_body req = Inr b"
    and "get_prop ''eventId'' b = Some ev" "get_prop ''action'' b = Some act"
    and "js_truthy (Some ev)" "js_truthy (Some act)"
  shows "handleEventAction nm store req =
     (case log_line nm act ev (get_prop ''source'' b) of
        Inl message \<Rightarrow> (server_error ''Failed to process event action'' message, store)
      | Inr line \<Rightarrow>
          if act = JStr ''complete''
          then (success ev ''complete'', store\<lparr>completedEvents := set_add ev (completedEvents store)\<rparr>)
          else if act = JStr ''dismiss''
          then (success ev ''dismiss'', store\<lparr>dismissedEvents := set_add ev (dismissedEvents store)\<rparr>)
          else (client_error 400 ''Invalid action'', store))"
proof -
  have "b \<noteq> JNull" using assms(3) by (auto simp: get_prop_JNull)
  with assms show ?thesis
    by (cases b) (simp_all add: handleEventAction_def Let_def success_def split: sum.splits)
qed

lemma handleEventAction_falsy:
  assumes "req_method req = ''POST''" "req_body req = Inr b" "b \<noteq> JNull"
    and "\<not> js_truthy (get_prop ''eventId'' b) \<or> \<not> js_truthy (get_prop ''action'' b)"
  shows "handleEventAction nm store req = (client_error 400 ''Event ID and action required'', store)"
  using assms
  by (cases b) (auto simp: handleEventAction_def Let_def)

lemma handleEventAction_missing:
  assumes "req_method req = ''POST''" "req_body req = Inr b" "b \<noteq> JNull"
    and "get_prop ''eventId'' b = None \<or> get_prop ''action'' b = None"
  shows "handleEventAction nm store req = (client_error 400 ''Event ID and action required'', store)"
proof (rule handleEventAction_falsy [OF assms(1,2,3)])
  show "\<not> js_truthy (get_prop ''eventId'' b) \<or> \<not> js_truthy (get_prop ''action'' b)"
    using assms(4) by (auto simp: js_truthy_def)
qed

lemma handleEventAction_invalid:
  assumes "req_method req = ''POST''" "req_body req = Inr b" "loggable b"
    and "js_truthy (get_prop ''eventId'' b)" "js_truthy (get_prop ''action'' b)"
    and "get_prop ''action'' b \<noteq> Some (JStr ''complete'')"
    and "get_prop ''action'' b \<noteq> Some (JStr ''dismiss'')"
  shows "handleEventAction nm store req = (client_error 400 ''Invalid action'', store)"
proof -
  obtain ev act where p: "get_prop ''eventId'' b = Some ev" "get_prop ''action'' b = Some act"
    using assms(4,5) by (auto simp: js_truthy_def split: option.splits)
  from assms(6,7) p have other: "act \<noteq> JStr ''complete''" "act \<noteq> JStr ''dismiss''"
    by simp_all
  from assms(4,5) p have t: "js_truthy (Some ev)" "js_truthy (Some act)"
    by simp_all
  show ?thesis
    unfolding handleEventAction_body [OF assms(1,2) p t]
      loggable_log_line [OF assms(3) p(2,1)]
    using other by simp
qed

lemma handleEventAction_complete:
  assumes "req_method req = ''POST''" "req_body req = Inr b" "loggable b"
    and "get_prop ''eventId'' b = Some ev" "js_truthy (Some ev)"
    and "get_prop ''action'' b = Some (JStr ''complete'')"
  shows "handleEventAction nm store req =
           (success ev ''complete'', store\<lparr>completedEvents := set_add ev (completedEvents store)\<rparr>)"
proof -
  have t: "js_truthy (Some (JStr ''complete''))" by (simp add: js_truthy_def)
  show ?thesis
    unfolding handleEventAction_body [OF assms(1,2,4,6,5) t]
      loggable_log_line [OF assms(3,6,4)]
    by simp
qed

lemma handleEventAction_dismiss:
  assumes "req_method req = ''POST''" "req_body req = Inr b" "loggable b"
    and "get_prop ''eventId'' b = Some ev" "js_truthy (Some ev)"
    and "get_prop ''action'' b = Some (JStr ''dismiss'')"
  shows "handleEventAction nm store req =
           (success ev ''dismiss'', store\<lparr>dismissedEvents := set_add ev (dismissedEvents store)\<rparr>)"
proof -
  have t: "js_truthy (Some (JStr ''dismiss''))" by (simp add: js_truthy_def)
  show ?thesis
    unfolding handleEventAction_body [OF assms(1,2,4,6,5) t]
      loggable_log_line [OF assms(3,6,4)]
    by simp
qed

lemma handleEventAction_unloggable:
  assumes "req_method req = ''POST''" "req_body req = Inr b" "\<not> loggable b"
    and "js_truthy (get_prop ''eventId'' b)" "js_truthy (get_prop ''action'' b)"
  shows "\<exists>message. handleEventAction nm store req
           = (server_error ''Failed to process event action'' message, store)"
proof -
  obtain ev act where p: "get_prop ''eventId'' b = Some ev" "get_prop ''action'' b = Some act"
    using assms(4,5) by (auto simp: js_truthy_def split: option.splits)
  from assms(4,5) p have t: "js_truthy (Some ev)" "js_truthy (Some act)"
    by simp_all
  from not_loggable_log_line [OF assms(3) p(2,1)]
  obtain message where "log_line nm act ev (get_prop ''source'' b) = Inl message"
    by blast
  then show ?thesis
    unfolding handleEventAction_body [OF assms(1,2) p t] by auto
qed

lemma handleEventAction_cases:
  "handleEventAction nm store req = (r, store') \<Longrightarrow>
     (status r \<noteq> 200 \<and> store' = store)
     \<or> (status r = 200 \<and> (\<exists>ev. js_truthy (Some ev) \<and>
          (store' = store\<lparr>completedEvents := set_add ev (completedEvents store)\<rparr>
           \<or> store' = store\<lparr>dismissedEvents := set_add ev (dismissedEvents store)\<rparr>)))"
  by (auto simp: handleEventAction_def Let_def client_error_def server_error_def
        split: if_splits sum.splits json.splits option.splits)

lemma set_add_member: "ev \<in> set (set_add ev members)" "set members \<subseteq> set (set_add ev members)"
  by (auto simp: set_add_def)

text \<open>
  Claim C8, as the code has it. For a POST whose body parses to a value other than \<open>null\<close>, a
  missing \<open>eventId\<close> or \<open>action\<close> (and likewise an empty, zero, false or \<open>null\<close> one) is
  answered with status 400 and the error \<open>Event ID and action required\<close>. When both are
  there and the \<open>action\<close>, the \<open>eventId\<close> and the \<open>source\<close> of the body can each be
  converted to a string, an action that is neither \<open>complete\<close> nor \<open>dismiss\<close> is answered
  with status 400 and the error \<open>Invalid action\<close>, and a valid request adds the event id
  to the set of its action, leaves the other set alone and is answered with status 200,
  \<open>success\<close>, the id, the action and a message. A body that is \<open>null\<close>, and one in which
  both are there and one of the three values cannot be converted, is answered with status
  500. Whatever the request, any answer other than 200, and so every 400, comes with both
  sets unchanged.
\<close>

theorem event_action_validation:
  "(req_method req = ''POST'' \<and> req_body req = Inr b \<longrightarrow>
      (b \<noteq> JNull \<and> (get_prop ''eventId'' b = None \<or> get_prop ''action'' b = None) \<longrightarrow>
         handleEventAction nm store req =
           (\<lparr>status = 400, content = JObj [(''error'', JStr ''Event ID and action required'')]\<rparr>,
            store))
      \<and> (b \<noteq> JNull
          \<and> (\<not> js_truthy (get_prop ''eventId'' b) \<or> \<not> js_truthy (get_prop ''action'' b)) \<longrightarrow>
         handleEventAction nm store req =
           (\<lparr>status = 400, content = JObj [(''error'', JStr ''Event ID and action required'')]\<rparr>,
            store))
      \<and> (loggable b \<and> js_truthy (get_prop ''eventId'' b) \<and> js_truthy (get_prop ''action'' b)
          \<and> get_prop ''action'' b \<noteq> Some (JStr ''complete'')
          \<and> get_prop ''action'' b \<noteq> Some (JStr ''dismiss'') \<longrightarrow>
         handleEventAction nm store req =
           (\<lparr>status = 400, content = JObj [(''error'', JStr ''Invalid action'')]\<rparr>, store))
      \<and> (loggable b \<and> get_prop ''eventId'' b = Some ev \<and> js_truthy (Some ev)
          \<and> get_prop ''action'' b = Some (JStr ''complete'') \<longrightarrow>
         handleEventAction nm store req =
           (\<lparr>status = 200,
              content = JObj [(''success'', JBool True), (''eventId'', ev),
                              (''action'', JStr ''complete''),
                              (''message'', JStr ''Event completed successfully'')]\<rparr>,
            \<lparr>completedEvents = set_add ev (completedEvents store),
              dismissedEvents = dismissedEvents store\<rparr>))
      \<and> (loggable b \<and> get_prop ''eventId'' b = Some ev \<and> js_truthy (Some ev)
          \<and> get_prop ''action'' b = Some (JStr ''dismiss'') \<longrightarrow>
         handleEventAction nm store req =
           (\<lparr>status = 200,
              content = JObj [(''success'', JBool True), (''eventId'', ev),
                              (''action'', JStr ''dismiss''),
                              (''message'', JStr ''Event dismissd successfully'')]\<rparr>,
            \<lparr>completedEvents = completedEvents store,
              dismissedEvents = set_add ev (dismissedEvents store)\<rparr>))
      \<and> (b = JNull \<longrightarrow>
         handleEventAction nm store req =
           (\<lparr>status = 500,
              content = JObj [(''error'', JStr ''Failed to process event action''),
                              (''message'', JStr (nm ''body''))]\<rparr>, store))
      \<and> (\<not> loggable b \<and> js_truthy (get_prop ''eventId'' b) \<and> js_truthy (get_prop ''action'' b) \<longrightarrow>
         status (fst (handleEventAction nm store req)) = 500
         \<and> snd (handleEventAction nm store req) = store))
   \<and> (status (fst (handleEventAction nm store req)) \<noteq> 200 \<longrightarrow>
        snd (handleEventAction nm store req) = store)
   \<and> ev \<in> set (set_add ev members) \<and> set members \<subseteq> set (set_add ev members)"
proof (intro conjI impI)
  assume h: "req_method req = ''POST'' \<and> req_body req = Inr b"
  {
    assume "b \<noteq> JNull \<and> (get_prop ''eventId'' b = None \<or> get_prop ''action'' b = None)"
    with h show "handleEventAction nm store req
        = (\<lparr>status = 400, content = JObj [(''error'', JStr ''Event ID and action required'')]\<rparr>,
           store)"
      by (simp add: handleEventAction_missing client_error_def)
  next
    assume "b \<noteq> JNull
      \<and> (\<not> js_truthy (get_prop ''eventId'' b) \<or> \<not> js_truthy (get_prop ''action'' b))"
    with h show "handleEventAction nm store req
        = (\<lparr>status = 400, content = JObj [(''error'', JStr ''Event ID and action required'')]\<rparr>,
           store)"
      by (simp add: handleEventAction_falsy client_error_def)
  next
    assume "loggable b \<and> js_truthy (get_prop ''eventId'' b) \<and> js_truthy (get_prop ''action'' b)
          \<and> get_prop ''action'' b \<noteq> Some (JStr ''complete'')
          \<and> get_prop ''action'' b \<noteq> Some (JStr ''dismiss'')"
    with h show "handleEventAction nm store req
        = (\<lparr>status = 400, content = JObj [(''error'', JStr ''Invalid action'')]\<rparr>, store)"
      by (simp add: handleEventAction_invalid client_error_def)
  next
    assume "loggable b \<and> get_prop ''eventId'' b = Some ev \<and> js_truthy (Some ev)
          \<and> get_prop ''action'' b = Some (JStr ''complete'')"
    with h show "handleEventAction nm store req =
           (\<lparr>status = 200,
              content = JObj [(''success'', JBool True), (''eventId'', ev),
                              (''action'', JStr ''complete''),
                              (''message'', JStr ''Event completed successfully'')]\<rparr>,
            \<lparr>completedEvents = set_add ev (completedEvents store),
              dismissedEvents = dismissedEvents store\<rparr>)"
      by (simp add: handleEventAction_complete success_def)
  next
    assume "loggable b \<and> get_prop ''eventId'' b = Some ev \<and> js_truthy (Some ev)
          \<and> get_prop ''action'' b = Some (JStr ''dismiss'')"
    with h show "handleEventAction nm store req =
           (\<lparr>status = 200,
              content = JObj [(''success'', JBool True), (''eventId'', ev),
                              (''action'', JStr ''dismiss''),
                              (''message'', JStr ''Event dismissd successfully'')]\<rparr>,
            \<lparr>completedEvents = completedEvents store,
              dismissedEvents = set_add ev (dismissedEvents store)\<rparr>)"
      by (simp add: handleEventAction_dismiss success_def)
  next
    assume "b = JNull"
    with h show "handleEventAction nm store req =
           (\<lparr>status = 500,
              content = JObj [(''error'', JStr ''Failed to process event action''),
                              (''message'', JStr (nm ''body''))]\<rparr>, store)"
      by (simp add: handleEventAction_null server_error_def)
  next
    assume u: "\<not> loggable b \<and> js_truthy (get_prop ''eventId'' b)
      \<and> js_truthy (get_prop ''action'' b)"
    with h handleEventAction_unloggable [of req b nm store]
    obtain message where "handleEventAction nm store req
           = (server_error ''Failed to process event action'' message, store)"
      by blast
    then show "status (fst (handleEventAction nm store req)) = 500"
      and "snd (handleEventAction nm store req) = store"
      by (simp_all add: server_error_def)
  }
next
  assume bad: "status (fst (handleEventAction nm store req)) \<noteq> 200"
  obtain r store' where res: "handleEventAction nm store req = (r, store')"
    by (cases "handleEventAction nm store req")
  from handleEventAction_cases [OF res] bad res
  show "snd (handleEventAction nm store req) = store"
    by auto
next
  show "ev \<in> set (set_add ev members)" by (rule set_add_member)
  show "set members \<subseteq> set (set_add ev members)" by (rule set_add_member)
qed

theorem event_action_validation_witness:
  "handleEventAction id \<lparr>completedEvents = [], dismissedEvents = [JStr ''b'']\<rparr>
       (action_request ''a1'' ''complete'')
     = (\<lparr>status = 200,
          content = JObj [(''success'', JBool True), (''eventId'', JStr ''a1''),
                          (''action'', JStr ''complete''),
                          (''message'', JStr ''Event completed successfully'')]\<rparr>,
        \<lparr>completedEvents = [JStr ''a1''], dismissedEvents = [JStr ''b'']\<rparr>)
   \<and> handleEventAction id \<lparr>completedEvents = [], dismissedEvents = [JStr ''b'']\<rparr>
       (action_request ''a1'' ''archive'')
     = (\<lparr>status = 400, content = JObj [(''error'', JStr ''Invalid action'')]\<rparr>,
        \<lparr>completedEvents = [], dismissedEvents = [JStr ''b'']\<rparr>)
   \<and> handleEventAction id \<lparr>completedEvents = [], dismissedEvents = [JStr ''b'']\<rparr>
        \<lparr>req_method = ''POST'', req_body = Inr (JObj [(''eventId'', JStr ''a1'')])\<rparr>
     = (\<lparr>status = 400, content = JObj [(''error'', JStr ''Event ID and action required'')]\<rparr>,
        \<lparr>completedEvents = [], dismissedEvents = [JStr ''b'']\<rparr>)
   \<and> handleEventAction id \<lparr>completedEvents = [], dismissedEvents = [JStr ''b'']\<rparr>
        \<lparr>req_method = ''POST'', req_body = Inr JNull\<rparr>
     = (\<lparr>status = 500,
          content = JObj [(''error'', JStr ''Failed to process event action''),
                          (''message'', JStr ''body'')]\<rparr>,
        \<lparr>completedEvents = [], dismissedEvents = [JStr ''b'']\<rparr>)
   \<and> \<not> loggable (JObj [(''eventId'', JStr ''a1''), (''action'', JStr ''dismiss''),
                        (''source'', JArr [JObj [(''toString'', JNull)]])])
   \<and> status (fst (handleEventAction id \<lparr>completedEvents = [], dismissedEvents = [JStr ''b'']\<rparr>
        \<lparr>req_method = ''POST'',
          req_body = Inr (JObj [(''eventId'', JStr ''a1''), (''action'', JStr ''dismiss''),
                                (''source'', JArr [JObj [(''toString'', JNull)]])])\<rparr>)) = 500
   \<and> snd (handleEventAction id \<lparr>completedEvents = [], dismissedEvents = [JStr ''b'']\<rparr>
        \<lparr>req_method = ''POST'',
          req_body = Inr (JObj [(''eventId'', JStr ''a1''), (''action'', JStr ''dismiss''),
                                (''source'', JArr [JObj [(''toString'', JNull)]])])\<rparr>)
     = \<lparr>completedEvents = [], dismissedEvents = [JStr ''b'']\<rparr>"
proof -
  let ?store = "\<lparr>completedEvents = [], dismissedEvents = [JStr ''b'']\<rparr>"
  let ?b = "\<lambda>a. JObj [(''eventId'', JStr ''a1''), (''action'', JStr a)]"
  let ?b' = "JObj [(''eventId'', JStr ''a1'')]"
  have props: "get_prop ''eventId'' (?b a) = Some (JStr ''a1'')"
    "get_prop ''action'' (?b a) = Some (JStr a)" "?b a \<noteq> JNull" "loggable (?b a)"
    "req_method (action_request ''a1'' a) = ''POST''"
    "req_body (action_request ''a1'' a) = Inr (?b a)" for a
    by (simp_all add: get_prop_def action_request_def loggable_def)
  have truthy: "js_truthy (Some (JStr ''a1''))" "js_truthy (Some (JStr ''archive''))"
    by (simp_all add: js_truthy_def)
  have "handleEventAction id ?store (action_request ''a1'' ''complete'')
     = (\<lparr>status = 200,
          content = JObj [(''success'', JBool True), (''eventId'', JStr ''a1''),
                          (''action'', JStr ''complete''),
                          (''message'', JStr ''Event completed successfully'')]\<rparr>,
        \<lparr>completedEvents = set_add (JStr ''a1'') (completedEvents ?store),
          dismissedEvents = dismissedEvents ?store\<rparr>)"
    using event_action_validation [of "action_request ''a1'' ''complete''" "?b ''complete''"
        id ?store "JStr ''a1''" "[]"] props truthy
    by simp
  then have ok: "handleEventAction id ?store (action_request ''a1'' ''complete'')
     = (\<lparr>status = 200,
          content = JObj [(''success'', JBool True), (''eventId'', JStr ''a1''),
                          (''action'', JStr ''complete''),
                          (''message'', JStr ''Event completed successfully'')]\<rparr>,
        \<lparr>completedEvents = [JStr ''a1''], dismissedEvents = [JStr ''b'']\<rparr>)"
    by (simp add: set_add_def is_reference_def)
  have invalid: "handleEventAction id ?store (action_request ''a1'' ''archive'')
     = (\<lparr>status = 400, content = JObj [(''error'', JStr ''Invalid action'')]\<rparr>, ?store)"
    using event_action_validation [of "action_request ''a1'' ''archive''" "?b ''archive''"
        id ?store "JStr ''a1''" "[]"] props truthy
    by simp
  have missing: "handleEventAction id ?store \<lparr>req_method = ''POST'', req_body = Inr ?b'\<rparr>
     = (\<lparr>status = 400, content = JObj [(''error'', JStr ''Event ID and action required'')]\<rparr>,
        ?store)"
    using event_action_validation [of "\<lparr>req_method = ''POST'', req_body = Inr ?b'\<rparr>" ?b'
        id ?store "JStr ''a1''" "[]"]
    by (simp add: get_prop_def)
  have null: "handleEventAction id ?store \<lparr>req_method = ''POST'', req_body = Inr JNull\<rparr>
     = (\<lparr>status = 500,
          content = JObj [(''error'', JStr ''Failed to process event action''),
                          (''message'', JStr ''body'')]\<rparr>, ?store)"
    using event_action_validation [of "\<lparr>req_method = ''POST'', req_body = Inr JNull\<rparr>" JNull
        id ?store "JStr ''a1''" "[]"]
    by simp
  let ?u = "JObj [(''eventId'', JStr ''a1''), (''action'', JStr ''dismiss''),
                  (''source'', JArr [JObj [(''toString'', JNull)]])]"
  have unloggable: "\<not> loggable ?u"
    by (simp add: loggable_def get_prop_def)
  have present: "js_truthy (get_prop ''eventId'' ?u)" "js_truthy (get_prop ''action'' ?u)"
    by (simp_all add: get_prop_def js_truthy_def)
  have failed: "status (fst (handleEventAction id ?store \<lparr>req_method = ''POST'', req_body = Inr ?u\<rparr>))
       = 500
     \<and> snd (handleEventAction id ?store \<lparr>req_method = ''POST'', req_body = Inr ?u\<rparr>) = ?store"
    using event_action_validation [of "\<lparr>req_method = ''POST'', req_body = Inr ?u\<rparr>" ?u
        id ?store "JStr ''a1''" "[]"] unloggable present
    by simp
  from ok invalid missing null unloggable failed show ?thesis by simp
qed

text \<open>
  The claim as stated fails on three bodies. A body with a valid \<open>eventId\<close> and
  \<open>action\<close> whose \<open>source\<close> is an object with a member \<open>toString\<close> is answered with
  status 500 and the id is not added; an \<open>action\<close> that is such an object, and so neither
  \<open>complete\<close> nor \<open>dismiss\<close>, is answered with 500, not with 400; and in the body
  \<open>null\<close> both fields are missing, and the answer is 500.
\<close>

theorem event_action_counterexample:
  "handleEventAction id \<lparr>completedEvents = [], dismissedEvents = []\<rparr>
       \<lparr>req_method = ''POST'',
         req_body = Inr (JObj [(''eventId'', JStr ''a1''), (''action'', JStr ''complete''),
                               (''source'', JObj [(''toString'', JNum 1), (''valueOf'', JNum 1)])])\<rparr>
     = (\<lparr>status = 500,
          content = JObj [(''error'', JStr ''Failed to process event action''),
                          (''message'', JStr ''source'')]\<rparr>,
        \<lparr>completedEvents = [], dismissedEvents = []\<rparr>)
   \<and> handleEventAction id \<lparr>completedEvents = [], dismissedEvents = []\<rparr>
       \<lparr>req_method = ''POST'',
         req_body = Inr (JObj [(''eventId'', JStr ''a1''),
                               (''action'', JObj [(''toString'', JNum 1), (''valueOf'', JNum 1)])])\<rparr>
     = (\<lparr>status = 500,
          content = JObj [(''error'', JStr ''Failed to process event action''),
                          (''message'', JStr ''action'')]\<rparr>,
        \<lparr>completedEvents = [], dismissedEvents = []\<rparr>)
   \<and> handleEventAction id \<lparr>completedEvents = [], dismissedEvents = []\<rparr>
       \<lparr>req_method = ''POST'', req_body = Inr JNull\<rparr>
     = (\<lparr>status = 500,
          content = JObj [(''error'', JStr ''Failed to process event action''),
                          (''message'', JStr ''body'')]\<rparr>,
        \<lparr>completedEvents = [], dismissedEvents = []\<rparr>)"
  by (simp add: handleEventAction_def Let_def get_prop_def js_truthy_def log_line_def
        server_error_def)

subsection \<open>Actions and later aggregations\<close>

lemma handleEventAction_grows:
  "set (completedEvents store) \<subseteq> set (completedEvents (snd (handleEventAction nm store req)))"
  "set (dismissedEvents store) \<subseteq> set (dismissedEvents (snd (handleEventAction nm store req)))"
proof -
  obtain r store' where res: "handleEventAction nm store req = (r, store')"
    by (cases "handleEventAction nm store req")
  from handleEventAction_cases [OF res] set_add_member(2)
  have "set (completedEvents store) \<subseteq> set (completedEvents store')
        \<and> set (dismissedEvents store) \<subseteq> set (dismissedEvents store')"
    by fastforce
  with res show "set (completedEvents store) \<subseteq> set (completedEvents (snd (handleEventAction nm store req)))"
    "set (dismissedEvents store) \<subseteq> set (dismissedEvents (snd (handleEventAction nm store req)))"
    by simp_all
qed

lemma run_actions_grows:
  "set (completedEvents store) \<subseteq> set (completedEvents (run_actions nm store reqs))
   \<and> set (dismissedEvents store) \<subseteq> set (dismissedEvents (run_actions nm store reqs))"
proof (induction reqs arbitrary: store)
  case Nil
  show ?case by simp
next
  case (Cons req reqs)
  from Cons.IH [of "snd (handleEventAction nm store req)"] handleEventAction_grows [of store nm req]
  show ?case by auto
qed

lemma actioned_id_kept: "actioned_id store i \<Longrightarrow> actioned_id (run_actions nm store reqs) i"
  using run_actions_grows [of store nm reqs] by (auto simp: actioned_id_def set_has_def)

lemma recorded:
  assumes "i \<noteq> []"
  shows "set_has (completedEvents (snd (handleEventAction nm store (action_request i ''complete'')))) i"
    and "set_has (dismissedEvents (snd (handleEventAction nm store (action_request i ''dismiss'')))) i"
proof -
  let ?b = "\<lambda>a. JObj [(''eventId'', JStr i), (''action'', JStr a)]"
  have props: "req_method (action_request i a) = ''POST''" "req_body (action_request i a) = Inr (?b a)"
    "get_prop ''eventId'' (?b a) = Some (JStr i)" "get_prop ''action'' (?b a) = Some (JStr a)"
    "loggable (?b a)" for a
    by (simp_all add: action_request_def get_prop_def loggable_def)
  have t: "js_truthy (Some (JStr i))"
    using assms by (simp add: js_truthy_def)
  show "set_has (completedEvents (snd (handleEventAction nm store (action_request i ''complete'')))) i"
    using handleEventAction_complete [OF props(1,2,5,3) t props(4), of nm store] set_add_member(1)
    by (simp add: set_has_def)
  show "set_has (dismissedEvents (snd (handleEventAction nm store (action_request i ''dismiss'')))) i"
    using handleEventAction_dismiss [OF props(1,2,5,3) t props(4), of nm store] set_add_member(1)
    by (simp add: set_has_def)
qed

lemma not_actioned_iff: "not_actioned store e = (\<not> actioned_id store (event_id e))"
  by (simp add: not_actioned_def actioned_id_def)

lemma actioned_excluded:
  "actioned_id store i \<Longrightarrow>
   \<forall>e \<in> set (events (aggregate parse engine ev rt clock fetch store)). event_id e \<noteq> i"
  by (auto simp: aggregate_event_set not_actioned_iff)

lemma excluded_after_action:
  assumes "i \<noteq> []"
  shows "\<forall>e \<in> set (events (aggregate parse engine ev rt clock fetch
             (run_actions nm (snd (handleEventAction nm store (action_request i ''complete''))) reqs))).
           event_id e \<noteq> i"
proof (rule actioned_excluded)
  have "actioned_id (snd (handleEventAction nm store (action_request i ''complete''))) i"
    using recorded(1) [OF assms] by (simp add: actioned_id_def)
  then show "actioned_id
     (run_actions nm (snd (handleEventAction nm store (action_request i ''complete''))) reqs) i"
    by (rule actioned_id_kept)
qed

lemma length_filter_split: "length (filter P xs) + length (filter (\<lambda>x. \<not> P x) xs) = length xs"
  by (induction xs) auto

lemma aggregate_count_sum:
  "filtered_events (aggregate parse engine ev rt clock fetch store)
     + length (filter (\<lambda>e. actioned_id store (event_id e))
                 (collect parse rt clock fetch 0 (calendarSources ev) []))
   = total_events (aggregate parse engine ev rt clock fetch store)"
  using length_filter_split [of "not_actioned store" "collect parse rt clock fetch 0 (calendarSources ev) []"]
  by (simp add: aggregate_counts not_actioned_iff)

lemma excluded_id_count_distinct:
  assumes "distinct (map event_id all)"
  shows "excluded_id_count store all = length (filter (\<lambda>e. actioned_id store (event_id e)) all)"
proof -
  have "distinct (filter (actioned_id store) (map event_id all))"
    using assms by (rule distinct_filter)
  then have "remdups (filter (actioned_id store) (map event_id all))
               = filter (actioned_id store) (map event_id all)"
    by (rule distinct_remdups_id)
  then have "excluded_id_count store all = length (filter (actioned_id store) (map event_id all))"
    by (simp only: excluded_id_count_def)
  also have "\<dots> = length (filter (\<lambda>e. actioned_id store (event_id e)) all)"
    by (simp add: filter_map comp_def)
  finally show ?thesis .
qed

lemma aggregate_count_distinct:
  assumes "distinct (map event_id (collect parse rt clock fetch 0 (calendarSources ev) []))"
  shows "filtered_events (aggregate parse engine ev rt clock fetch store)
     = total_events (aggregate parse engine ev rt clock fetch store)
       - excluded_id_count store (collect parse rt clock fetch 0 (calendarSources ev) [])"
  using aggregate_count_sum [of parse engine ev rt clock fetch store] excluded_id_count_distinct [OF assms, of store]
  by simp

text \<open>
  Claim C7, as the code has it. Once \<open>complete\<close> has been recorded for an id, no
  aggregation after any further requests shows an event with that id. The counts
  satisfy: \<open>filtered_events\<close> plus the number of collected events whose id is completed
  or dismissed is \<open>total_events\<close>. That number of events is the number of such ids
  when the collected events have pairwise distinct ids.
\<close>

theorem action_exclusion:
  "(i \<noteq> [] \<longrightarrow>
      (\<forall>e \<in> set (events (handleAppleCalendar engine ev rt clock fetch
                (run_actions nm (snd (handleEventAction nm store0 (action_request i ''complete''))) reqs))).
         event_id e \<noteq> i)
      \<and> (\<forall>e \<in> set (events (handleAppleCalendar_backup engine' ev rt clock fetch
                (run_actions nm (snd (handleEventAction nm store0 (action_request i ''complete''))) reqs))).
         event_id e \<noteq> i))
   \<and> filtered_events (handleAppleCalendar engine ev rt clock fetch store)
        + length (filter (\<lambda>e. actioned_id store (event_id e)) (allEvents ev rt clock fetch))
      = total_events (handleAppleCalendar engine ev rt clock fetch store)
   \<and> filtered_events (handleAppleCalendar_backup engine' ev rt clock fetch store)
        + length (filter (\<lambda>e. actioned_id store (event_id e)) (allEvents_backup ev rt clock fetch))
      = total_events (handleAppleCalendar_backup engine' ev rt clock fetch store)
   \<and> (distinct (map event_id (allEvents ev rt clock fetch)) \<longrightarrow>
        filtered_events (handleAppleCalendar engine ev rt clock fetch store)
        = total_events (handleAppleCalendar engine ev rt clock fetch store)
          - excluded_id_count store (allEvents ev rt clock fetch))
   \<and> (distinct (map event_id (allEvents_backup ev rt clock fetch)) \<longrightarrow>
        filtered_events (handleAppleCalendar_backup engine' ev rt clock fetch store)
        = total_events (handleAppleCalendar_backup engine' ev rt clock fetch store)
          - excluded_id_count store (allEvents_backup ev rt clock fetch))"
  using excluded_after_action [of i parseICSData engine ev rt clock fetch nm store0 reqs]
    excluded_after_action [of i parseICSData_backup engine' ev rt clock fetch nm store0 reqs]
    aggregate_count_sum [of parseICSData engine ev rt clock fetch store]
    aggregate_count_sum [of parseICSData_backup engine' ev rt clock fetch store]
    aggregate_count_distinct [of parseICSData rt clock fetch ev engine store]
    aggregate_count_distinct [of parseICSData_backup rt clock fetch ev engine' store]
  unfolding handleAppleCalendar_def handleAppleCalendar_backup_def allEvents_def allEvents_backup_def
  by blast

lemma anonymous_parse:
  "parseICSData (example_runtime\<lparr>Date_now := \<lambda>_. t\<rparr>) anonymous_feed ''Todoist'' =
     [example_event (string_of_int t) ''One'' ''2025-06-15'' ''09:00'',
      example_event (string_of_int t) ''Two'' ''2025-06-16'' ''09:00'']"
  by (simp add: parseICSData_def anonymous_feed_def example_runtime_def example_event_def
        parse_line_def set_property_def empty_event_def eval_parse eval_date
        del: string_of_nat.simps)

lemma anonymous_allEvents:
  "allEvents example_env example_runtime (\<lambda>_ _. t) anonymous_fetch =
     [example_event (string_of_int t) ''One'' ''2025-06-15'' ''09:00'',
      example_event (string_of_int t) ''Two'' ''2025-06-16'' ''09:00'']"
  by (simp add: allEvents_def calendarSources_def example_env_def not_configured_def
        load_source_def anonymous_fetch_def startsWith_def anonymous_parse)

lemma string_of_int_1000: "string_of_int 1000 = ''1000''" "string_of_int 2000 = ''2000''"
  by (simp_all add: string_of_int_def digit_char_def)

lemma store_after_1000:
  "snd (handleEventAction id \<lparr>completedEvents = [], dismissedEvents = []\<rparr>
          (action_request ''1000'' ''complete''))
     = \<lparr>completedEvents = [JStr ''1000''], dismissedEvents = []\<rparr>"
  by (simp add: handleEventAction_def action_request_def get_prop_def js_truthy_def Let_def
        log_line_def set_add_def is_reference_def)

text \<open>
  Claim C7 as stated fails in its count: two collected events share the completed id
  \<open>1000\<close>, so \<open>total_events\<close> is 2 and \<open>filtered_events\<close> is 0, while one id of the
  two sets is present among the events.
\<close>

theorem action_count_counterexample:
  "total_events (handleAppleCalendar insertion_sort example_env example_runtime (\<lambda>_ _. 1000) anonymous_fetch
      (snd (handleEventAction id \<lparr>completedEvents = [], dismissedEvents = []\<rparr>
              (action_request ''1000'' ''complete'')))) = 2
   \<and> filtered_events (handleAppleCalendar insertion_sort example_env example_runtime (\<lambda>_ _. 1000) anonymous_fetch
      (snd (handleEventAction id \<lparr>completedEvents = [], dismissedEvents = []\<rparr>
              (action_request ''1000'' ''complete'')))) = 0
   \<and> excluded_id_count
        (snd (handleEventAction id \<lparr>completedEvents = [], dismissedEvents = []\<rparr>
                (action_request ''1000'' ''complete'')))
        (allEvents example_env example_runtime (\<lambda>_ _. 1000) anonymous_fetch) = 1"
  unfolding store_after_1000
  by (simp add: handleAppleCalendar_def aggregate_counts allEvents_def [symmetric]
        anonymous_allEvents string_of_int_1000 example_event_def not_actioned_def set_has_def
        excluded_id_count_def actioned_id_def)

theorem action_exclusion_witness:
  "''a1'' \<noteq> []
   \<and> list_all (\<lambda>e. event_id e \<noteq> ''a1'')
        (events (handleAppleCalendar insertion_sort example_env example_runtime (\<lambda>_ _. 1000) example_fetch
           (run_actions id
              (snd (handleEventAction id \<lparr>completedEvents = [], dismissedEvents = []\<rparr>
                      (action_request ''a1'' ''complete'')))
              [action_request ''zz'' ''dismiss''])))
   \<and> distinct (map event_id (allEvents example_env example_runtime (\<lambda>_ _. 1000) example_fetch))
   \<and> filtered_events (handleAppleCalendar insertion_sort example_env example_runtime (\<lambda>_ _. 1000) example_fetch
         \<lparr>completedEvents = [JStr ''a1''], dismissedEvents = []\<rparr>) = 2
   \<and> total_events (handleAppleCalendar insertion_sort example_env example_runtime (\<lambda>_ _. 1000) example_fetch
         \<lparr>completedEvents = [JStr ''a1''], dismissedEvents = []\<rparr>) = 3"
proof -
  let ?store = "\<lparr>completedEvents = [JStr ''a1''], dismissedEvents = []\<rparr>"
  let ?all = "allEvents example_env example_runtime (\<lambda>_ _. 1000) example_fetch"
  let ?backup = "\<lparr>event_id = [], title = [], date = [], time = [], duration = [], description = [],
        location = [], priority = [], source = [], isAllDay = False\<rparr>"
  note inst = action_exclusion [of "''a1''" insertion_sort example_env example_runtime
      "\<lambda>_ _. 1000" example_fetch id "\<lparr>completedEvents = [], dismissedEvents = []\<rparr>"
      "[action_request ''zz'' ''dismiss'']" insertion_sort ?store]
  have nonempty: "''a1'' \<noteq> []" by simp
  have d: "distinct (map event_id ?all)"
    by (simp add: example_allEvents example_event_def)
  have count: "excluded_id_count ?store ?all = 1"
    by (simp add: example_allEvents example_event_def excluded_id_count_def actioned_id_def
          set_has_def)
  have total: "total_events (handleAppleCalendar insertion_sort example_env example_runtime (\<lambda>_ _. 1000)
      example_fetch ?store) = 3"
    by (simp add: handleAppleCalendar_def aggregate_counts allEvents_def [symmetric]
          example_allEvents)
  have gone: "\<forall>e \<in> set (events (handleAppleCalendar insertion_sort example_env example_runtime (\<lambda>_ _. 1000)
         example_fetch
         (run_actions id
            (snd (handleEventAction id \<lparr>completedEvents = [], dismissedEvents = []\<rparr>
                    (action_request ''a1'' ''complete'')))
            [action_request ''zz'' ''dismiss'']))).
        event_id e \<noteq> ''a1''"
    using inst nonempty by blast
  have "filtered_events (handleAppleCalendar insertion_sort example_env example_runtime (\<lambda>_ _. 1000)
            example_fetch ?store)
        = total_events (handleAppleCalendar insertion_sort example_env example_runtime (\<lambda>_ _. 1000)
            example_fetch ?store) - excluded_id_count ?store ?all"
    using inst d by blast
  with count total have filtered: "filtered_events (handleAppleCalendar insertion_sort example_env example_runtime
        (\<lambda>_ _. 1000) example_fetch ?store) = 2"
    by simp
  from nonempty gone d filtered total show ?thesis by (simp only: list_all_iff; blast)
qed

subsection \<open>Fallback ids\<close>








subsection \<open>The weather cache\<close>













end
